theory Spec2Isabelle
  imports Complex_Main
begin

section \<open>Values and schema nodes\<close>

text \<open>
  The value tree of the form (\<^verbatim>\<open>any\<close> in the TypeScript source). Numbers are exact
  rationals plus \<open>JNaN\<close>; rounding and the infinities of IEEE doubles are not represented.
  An object is its list of own properties in enumeration order; an array is its list of
  elements, a hole being read as \<open>JUndef\<close>. Object identity is not represented, and the
  built-in prototype chains are not represented either: a property is an own property.
\<close>

datatype jv =
    JUndef
  | JNull
  | JBool bool
  | JNum rat
  | JNaN
  | JStr string
  | JArr "jv list"
  | JObj "(string \<times> jv) list"

text \<open>\<^verbatim>\<open>type?: string | string[]\<close>\<close>

datatype stype = TName string | TList "string list"

text \<open>
  \<^verbatim>\<open>interface JSONSchema\<close>: every field is optional, \<open>None\<close> is \<^verbatim>\<open>undefined\<close>.
  The members that hold no schema are the record \<open>meta\<close>; the recursive ones
  (\<^verbatim>\<open>properties\<close>, \<^verbatim>\<open>items\<close>, \<^verbatim>\<open>anyOf\<close>, \<^verbatim>\<open>oneOf\<close>) are the arguments of \<open>Schema\<close>.
  \<^verbatim>\<open>properties\<close> is the list \<^verbatim>\<open>Object.entries\<close> enumerates.
\<close>

record meta =
  s_type :: "stype option"
  s_required :: "string list option"
  s_enum :: "jv list option"
  s_const :: "jv option"
  minimum :: "rat option"
  maximum :: "rat option"
  minLength :: "rat option"
  maxLength :: "rat option"
  pattern :: "string option"
  minItems :: "rat option"
  maxItems :: "rat option"
  title :: "string option"
  description :: "string option"
  s_default :: "jv option"
  format :: "string option"

datatype schema =
  Schema (meta: meta)
         (properties: "(string \<times> schema) list option")
         (items: "schema option")
         (anyOf: "schema list option")
         (oneOf: "schema list option")

definition no_meta :: meta where
  "no_meta = \<lparr> s_type = None, s_required = None, s_enum = None, s_const = None,
     minimum = None, maximum = None, minLength = None, maxLength = None,
     pattern = None, minItems = None, maxItems = None, title = None,
     description = None, s_default = None, format = None \<rparr>"

text \<open>A schema with the given \<open>meta\<close> and no \<^verbatim>\<open>properties\<close>, \<^verbatim>\<open>items\<close>, \<^verbatim>\<open>anyOf\<close>, \<^verbatim>\<open>oneOf\<close>.\<close>

definition leaf :: "meta \<Rightarrow> schema" where
  "leaf m = Schema m None None None None"

text \<open>\<^verbatim>\<open>{ type: t, properties: ps }\<close> with further members taken from \<open>m\<close>.\<close>

definition obj_schema :: "meta \<Rightarrow> (string \<times> schema) list \<Rightarrow> schema" where
  "obj_schema m ps = Schema (m\<lparr>s_type := Some (TName ''object'')\<rparr>) (Some ps) None None None"

subsection \<open>JavaScript primitives used by the source\<close>

text \<open>\<^verbatim>\<open>v === null || v === undefined\<close>, also \<^verbatim>\<open>v == null\<close>.\<close>

definition isNullish :: "jv \<Rightarrow> bool" where
  "isNullish v = (v = JNull \<or> v = JUndef)"

text \<open>
  \<^verbatim>\<open>a === b\<close>. Primitives compare by value, \<^verbatim>\<open>NaN\<close> equals nothing. Two objects or
  arrays are strictly equal only when they are one object; a value of the data tree and
  a literal of the schema are taken to be different objects.
\<close>

fun strictEq :: "jv \<Rightarrow> jv \<Rightarrow> bool" where
  "strictEq JUndef JUndef = True"
| "strictEq JNull JNull = True"
| "strictEq (JBool a) (JBool b) = (a = b)"
| "strictEq (JNum a) (JNum b) = (a = b)"
| "strictEq (JStr a) (JStr b) = (a = b)"
| "strictEq _ _ = False"

text \<open>\<^verbatim>\<open>typeof v\<close>\<close>

fun typeof :: "jv \<Rightarrow> string" where
  "typeof JUndef = ''undefined''"
| "typeof JNull = ''object''"
| "typeof (JBool _) = ''boolean''"
| "typeof (JNum _) = ''number''"
| "typeof JNaN = ''number''"
| "typeof (JStr _) = ''string''"
| "typeof (JArr _) = ''object''"
| "typeof (JObj _) = ''object''"

fun isArray :: "jv \<Rightarrow> bool" where
  "isArray (JArr _) = True"
| "isArray _ = False"

text \<open>\<^verbatim>\<open>Number.isInteger(v)\<close>\<close>

fun isInteger :: "jv \<Rightarrow> bool" where
  "isInteger (JNum r) = (of_int \<lfloor>r\<rfloor> = r)"
| "isInteger _ = False"

text \<open>\<^verbatim>\<open>value[key]\<close> and \<^verbatim>\<open>key in value\<close> on an object of the data tree.\<close>

fun getMember :: "jv \<Rightarrow> string \<Rightarrow> jv" where
  "getMember (JObj kvs) k = (case map_of kvs k of Some v \<Rightarrow> v | None \<Rightarrow> JUndef)"
| "getMember _ k = JUndef"

fun hasKey :: "string \<Rightarrow> jv \<Rightarrow> bool" where
  "hasKey k (JObj kvs) = (k \<in> set (map fst kvs))"
| "hasKey k _ = False"

text \<open>\<^verbatim>\<open>Array.isArray(schema.type) ? schema.type[0] : schema.type\<close>\<close>

definition schemaType :: "schema \<Rightarrow> string option" where
  "schemaType s =
     (case s_type (meta s) of
        None \<Rightarrow> None
      | Some (TName t) \<Rightarrow> Some t
      | Some (TList ts) \<Rightarrow> (case ts of [] \<Rightarrow> None | t # _ \<Rightarrow> Some t))"

section \<open>Variant detection\<close>

text \<open>
  \<^verbatim>\<open>detectVariant\<close> of \<^verbatim>\<open>src/schema-form.ts\<close>. One loop over the variants; for each
  variant the const check comes first, the type check second. \<open>discriminatorHit\<close> is
  the inner loop over \<^verbatim>\<open>variantKeys\<close>; \<open>typeMatch\<close> is the block under
  \<^verbatim>\<open>if (variantType)\<close>; \<open>variantHit\<close> is one iteration, true when it returns \<^verbatim>\<open>i\<close>.
\<close>

definition constHit :: "jv \<Rightarrow> schema \<Rightarrow> bool" where
  "constHit v s = (case s_const (meta s) of None \<Rightarrow> False | Some c \<Rightarrow> strictEq v c)"

fun discriminatorHit :: "jv \<Rightarrow> (string \<times> schema) list \<Rightarrow> bool" where
  "discriminatorHit v [] = False"
| "discriminatorHit v ((k, p) # ps) =
     (case s_const (meta p) of
        Some c \<Rightarrow> if strictEq (getMember v k) c then True else discriminatorHit v ps
      | None \<Rightarrow> discriminatorHit v ps)"

definition typeMatch :: "jv \<Rightarrow> schema \<Rightarrow> bool" where
  "typeMatch v s =
     (case schemaType s of
        None \<Rightarrow> False
      | Some t \<Rightarrow>
          if t = [] then False
          else if t = ''string'' \<and> typeof v = ''string'' then True
          else if t = ''number'' \<and> typeof v = ''number'' then True
          else if t = ''integer'' \<and> typeof v = ''number'' \<and> isInteger v then True
          else if t = ''boolean'' \<and> typeof v = ''boolean'' then True
          else if t = ''array'' \<and> isArray v then True
          else if t = ''object'' \<and> typeof v = ''object'' \<and> \<not> isArray v then
            (case properties s of
               Some ps \<Rightarrow>
                 if discriminatorHit v ps then True
                 else length (filter (\<lambda>k. hasKey k v) (map fst ps)) = length (map fst ps)
             | None \<Rightarrow> True)
          else False)"

definition variantHit :: "jv \<Rightarrow> schema \<Rightarrow> bool" where
  "variantHit v s = (if constHit v s then True else typeMatch v s)"

text \<open>The \<^verbatim>\<open>for\<close> loop: the first index at which the body returns.\<close>

fun firstHit :: "('a \<Rightarrow> bool) \<Rightarrow> 'a list \<Rightarrow> nat \<Rightarrow> nat option" where
  "firstHit P [] i = None"
| "firstHit P (x # xs) i = (if P x then Some i else firstHit P xs (Suc i))"

definition detectVariant :: "jv \<Rightarrow> schema list \<Rightarrow> nat" where
  "detectVariant v variants =
     (if isNullish v then 0
      else case firstHit (variantHit v) variants 0 of
             Some i \<Rightarrow> i
           | None \<Rightarrow> 0)"

text \<open>
  \<^verbatim>\<open>detectVariant\<close> of the later revision \<^verbatim>\<open>blueprint.ts\<close>: a first loop that only
  looks for a const match, then a second loop that skips the variants with a const and
  no type and runs the same type check.
\<close>

definition typeHit2 :: "jv \<Rightarrow> schema \<Rightarrow> bool" where
  "typeHit2 v s =
     (if s_const (meta s) \<noteq> None \<and>
         (s_type (meta s) = None \<or> s_type (meta s) = Some (TName [])) then False
      else typeMatch v s)"

definition detectVariant_blueprint :: "jv \<Rightarrow> schema list \<Rightarrow> nat" where
  "detectVariant_blueprint v variants =
     (if isNullish v then 0
      else case firstHit (constHit v) variants 0 of
             Some i \<Rightarrow> i
           | None \<Rightarrow>
               (case firstHit (typeHit2 v) variants 0 of
                  Some i \<Rightarrow> i
                | None \<Rightarrow> 0))"

subsection \<open>Example schemas\<close>

definition str_s :: schema where
  "str_s = leaf (no_meta\<lparr>s_type := Some (TName ''string'')\<rparr>)"

definition num_s :: schema where
  "num_s = leaf (no_meta\<lparr>s_type := Some (TName ''number'')\<rparr>)"

definition int_s :: schema where
  "int_s = leaf (no_meta\<lparr>s_type := Some (TName ''integer'')\<rparr>)"

definition bool_s :: schema where
  "bool_s = leaf (no_meta\<lparr>s_type := Some (TName ''boolean'')\<rparr>)"

text \<open>\<^verbatim>\<open>{ const: c }\<close> and \<^verbatim>\<open>{ type: 'string', const: t }\<close>\<close>

definition const_s :: "jv \<Rightarrow> schema" where
  "const_s c = leaf (no_meta\<lparr>s_const := Some c\<rparr>)"

definition tag_s :: "string \<Rightarrow> schema" where
  "tag_s t = leaf (no_meta\<lparr>s_type := Some (TName ''string''), s_const := Some (JStr t)\<rparr>)"

text \<open>The two variants of the test \<^verbatim>\<open>variant detection works with discriminator properties\<close>.\<close>

definition product :: schema where
  "product = obj_schema (no_meta\<lparr>title := Some ''Product''\<rparr>)
     [(''type'', tag_s ''product''), (''name'', str_s), (''price'', num_s)]"

definition service :: schema where
  "service = obj_schema (no_meta\<lparr>title := Some ''Service''\<rparr>)
     [(''type'', tag_s ''service''), (''name'', str_s), (''hourlyRate'', num_s)]"

definition consulting :: jv where
  "consulting = JObj [(''type'', JStr ''service''), (''name'', JStr ''Consulting''),
     (''hourlyRate'', JNum 150)]"

text \<open>Two variants that differ in the discriminator only.\<close>

definition product_n :: schema where
  "product_n = obj_schema no_meta [(''type'', tag_s ''product''), (''name'', str_s)]"

definition service_n :: schema where
  "service_n = obj_schema no_meta [(''type'', tag_s ''service''), (''name'', str_s)]"

section \<open>Path utilities\<close>

text \<open>\<^verbatim>\<open>\d\<close> and \<^verbatim>\<open>/^\d+$/.test(s)\<close>\<close>

definition isDigit :: "char \<Rightarrow> bool" where
  "isDigit c = (c \<in> set ''0123456789'')"

definition allDigits :: "string \<Rightarrow> bool" where
  "allDigits s = (s \<noteq> [] \<and> list_all isDigit s)"

text \<open>
  \<^verbatim>\<open>path.replace(/\[(\d+)\]/g, '.$1')\<close>. \<open>bracketIndex cs\<close> matches \<^verbatim>\<open>\d+\]\<close> at the
  start of \<open>cs\<close>, the text after an opening bracket, and gives the digits and the text
  after the closing bracket. The scan goes on after a match, and one character further
  where there is none.
\<close>

definition bracketIndex :: "string \<Rightarrow> (string \<times> string) option" where
  "bracketIndex cs =
     (let ds = takeWhile isDigit cs; rest = dropWhile isDigit cs
      in if ds = [] then None
         else (case rest of
                 [] \<Rightarrow> None
               | c # rest' \<Rightarrow> if c = CHR '']'' then Some (ds, rest') else None))"

function replaceBrackets :: "string \<Rightarrow> string" where
  "replaceBrackets [] = []"
| "replaceBrackets (c # cs) =
     (if c = CHR ''['' then
        (case bracketIndex cs of
           Some (ds, rest) \<Rightarrow> CHR ''.'' # ds @ replaceBrackets rest
         | None \<Rightarrow> c # replaceBrackets cs)
      else c # replaceBrackets cs)"
  by pat_completeness auto
termination
proof (relation "measure length")
  fix c :: char and cs :: string and x2 :: "string \<times> string" and ds rest :: string
  assume "bracketIndex cs = Some x2" and "(ds, rest) = x2"
  then have "bracketIndex cs = Some (ds, rest)" by simp
  then have "dropWhile isDigit cs = CHR '']'' # rest"
    by (auto simp: bracketIndex_def Let_def split: if_splits list.splits)
  then have "length (dropWhile isDigit cs) = Suc (length rest)" by simp
  moreover have "length (dropWhile isDigit cs) \<le> length cs" by (rule length_dropWhile_le)
  ultimately show "(rest, c # cs) \<in> measure length" by simp
qed simp_all

text \<open>\<^verbatim>\<open>s.split('.')\<close> for a one-character separator: the empty pieces are kept.\<close>

fun split :: "char \<Rightarrow> string \<Rightarrow> string list" where
  "split sep [] = [[]]"
| "split sep (c # cs) =
     (if c = sep then [] # split sep cs
      else (case split sep cs of
              [] \<Rightarrow> [[c]]
            | p # ps \<Rightarrow> (c # p) # ps))"

text \<open>\<^verbatim>\<open>path.replace(/\[(\d+)\]/g, '.$1').split('.').filter(Boolean)\<close>\<close>

definition pathParts :: "string \<Rightarrow> string list" where
  "pathParts path = filter (\<lambda>p. p \<noteq> []) (split (CHR ''.'') (replaceBrackets path))"

text \<open>
  The number a string of digits denotes, and the strings that are array indices: the
  canonical decimal numerals below \<open>2^32 - 1\<close>. On an array every other key is a named
  property (\<^verbatim>\<open>length\<close>, a method, or an own property that is no element).
\<close>

definition digitVal :: "char \<Rightarrow> nat" where
  "digitVal c = length (takeWhile (\<lambda>d. d \<noteq> c) ''0123456789'')"

definition decimal :: "string \<Rightarrow> nat" where
  "decimal s = foldl (\<lambda>a c. 10 * a + digitVal c) 0 s"

definition isIndex :: "string \<Rightarrow> bool" where
  "isIndex s = (allDigits s \<and> (s = ''0'' \<or> hd s \<noteq> CHR ''0'') \<and> decimal s < 4294967295)"

text \<open>\<^verbatim>\<open>String(n)\<close> of a natural number: its decimal numeral.\<close>

function natToString :: "nat \<Rightarrow> string" where
  "natToString n =
     (if n < 10 then [''0123456789'' ! n]
      else natToString (n div 10) @ [''0123456789'' ! (n mod 10)])"
  by pat_completeness auto
termination
  by (relation "measure id") auto

text \<open>
  The outcome of a write. \<open>TypeError\<close> is the exception of a strict-mode module that
  assigns a property on a primitive, or reads one of \<^verbatim>\<open>null\<close> or \<^verbatim>\<open>undefined\<close>.
  \<open>Unmodelled\<close> marks a step this development does not describe: a key of an array
  that is no array index.
\<close>

datatype error = TypeError | Unmodelled

text \<open>\<^verbatim>\<open>kvs[k] = v\<close> on the own properties: in place when the key exists, else appended.\<close>

fun assign :: "(string \<times> jv) list \<Rightarrow> string \<Rightarrow> jv \<Rightarrow> (string \<times> jv) list" where
  "assign [] k v = [(k, v)]"
| "assign ((k', v') # kvs) k v = (if k' = k then (k, v) # kvs else (k', v') # assign kvs k v)"

text \<open>\<^verbatim>\<open>current[part]\<close>\<close>

fun getProp :: "jv \<Rightarrow> string \<Rightarrow> error + jv" where
  "getProp (JObj kvs) k = Inr (case map_of kvs k of Some v \<Rightarrow> v | None \<Rightarrow> JUndef)"
| "getProp (JArr xs) k =
     (if isIndex k then Inr (if decimal k < length xs then xs ! decimal k else JUndef)
      else Inl Unmodelled)"
| "getProp _ k = Inl TypeError"

text \<open>\<^verbatim>\<open>current[part] = v\<close>, giving the container after the assignment.\<close>

fun setProp :: "jv \<Rightarrow> string \<Rightarrow> jv \<Rightarrow> error + jv" where
  "setProp (JObj kvs) k v = Inr (JObj (assign kvs k v))"
| "setProp (JArr xs) k v =
     (if isIndex k then
        Inr (JArr (if decimal k < length xs then xs[decimal k := v]
                   else xs @ replicate (decimal k - length xs) JUndef @ [v]))
      else Inl Unmodelled)"
| "setProp _ k v = Inl TypeError"

text \<open>
  The loop of \<^verbatim>\<open>setValueByPath\<close> and the final assignment, on the list of parts. The
  source walks a reference down the tree and assigns in place; here each level returns
  its container after the write. A primitive met on the walk ends in a \<open>TypeError\<close>:
  either the missing child cannot be created on it, or the walk goes on through one of
  its characters to the final assignment on a primitive.
\<close>

fun setParts :: "jv \<Rightarrow> string list \<Rightarrow> jv \<Rightarrow> error + jv" where
  "setParts current [] v = Inr current"
| "setParts current [lastPart] v = (if lastPart = [] then Inr current else setProp current lastPart v)"
| "setParts current (part # nextPart # rest) v =
     (case getProp current part of
        Inl e \<Rightarrow> Inl e
      | Inr child \<Rightarrow>
          (let isNextArray = (if nextPart = [] then False else allDigits nextPart);
               child' = (if isNullish child then (if isNextArray then JArr [] else JObj [])
                         else child)
           in case setParts child' (nextPart # rest) v of
                Inl e \<Rightarrow> Inl e
              | Inr new \<Rightarrow> setProp current part new))"

definition setValueByPath :: "jv \<Rightarrow> string \<Rightarrow> jv \<Rightarrow> error + jv" where
  "setValueByPath obj path v = setParts obj (pathParts path) v"

subsection \<open>Reading along a path\<close>

text \<open>
  The source has no read operation; \<open>readParts\<close> is the reading counterpart of the
  write on the same list of parts, used to state what a write achieves: \<open>child\<close> is the
  own property or element under a key, \<^verbatim>\<open>undefined\<close> when there is none.
\<close>

fun child :: "jv \<Rightarrow> string \<Rightarrow> jv" where
  "child (JObj kvs) k = (case map_of kvs k of Some v \<Rightarrow> v | None \<Rightarrow> JUndef)"
| "child (JArr xs) k = (if isIndex k \<and> decimal k < length xs then xs ! decimal k else JUndef)"
| "child _ k = JUndef"


text \<open>A key the container can take: any key on an object, an array index on an array.\<close>

fun takesKey :: "jv \<Rightarrow> string \<Rightarrow> bool" where
  "takesKey (JObj kvs) k = True"
| "takesKey (JArr xs) k = isIndex k"
| "takesKey _ k = False"

text \<open>
  The walks that meet only containers: every value met before the final part is
  \<^verbatim>\<open>null\<close>, \<^verbatim>\<open>undefined\<close>, an object, or an array entered by an array index.
\<close>

fun walkable :: "jv \<Rightarrow> string list \<Rightarrow> bool" where
  "walkable current [] = True"
| "walkable current [lastPart] = takesKey current lastPart"
| "walkable current (part # nextPart # rest) =
     (takesKey current part \<and>
      (if isNullish (child current part)
       then walkable (if allDigits nextPart then JArr [] else JObj []) (nextPart # rest)
       else walkable (child current part) (nextPart # rest)))"



section \<open>The document tree\<close>

text \<open>
  An element has a tag, its attributes, the \<^verbatim>\<open>value\<close> and \<^verbatim>\<open>checked\<close> properties of a
  form control (\<open>''''\<close> and \<open>False\<close> on every other element) and its children. The
  attributes \<^verbatim>\<open>id\<close>, \<^verbatim>\<open>for\<close> and \<^verbatim>\<open>aria-label\<close>, which the source derives from the
  counter of \<^verbatim>\<open>uniqueId\<close>, are read by no operation below and are left out.
\<close>

datatype node =
    Txt string
  | El (tag: string) (attrs: "(string \<times> string) list") (val: string) (checked: bool)
       (kids: "node list")

text \<open>\<^verbatim>\<open>el.getAttribute(a)\<close>, \<^verbatim>\<open>el.hasAttribute(a)\<close>, \<^verbatim>\<open>el.setAttribute(a, s)\<close>\<close>

fun getAttribute :: "node \<Rightarrow> string \<Rightarrow> string option" where
  "getAttribute (El t as v c ks) a = map_of as a"
| "getAttribute (Txt s) a = None"

definition hasAttribute :: "node \<Rightarrow> string \<Rightarrow> bool" where
  "hasAttribute n a = (getAttribute n a \<noteq> None)"

fun assignAttr :: "(string \<times> string) list \<Rightarrow> string \<Rightarrow> string \<Rightarrow> (string \<times> string) list" where
  "assignAttr [] a s = [(a, s)]"
| "assignAttr ((a', s') # as) a s = (if a' = a then (a, s) # as else (a', s') # assignAttr as a s)"

fun setAttribute :: "node \<Rightarrow> string \<Rightarrow> string \<Rightarrow> node" where
  "setAttribute (El t as v c ks) a s = El t (assignAttr as a s) v c ks"
| "setAttribute (Txt x) a s = Txt x"

text \<open>A class selector \<^verbatim>\<open>.c\<close>: \<open>c\<close> is one of the space-separated tokens of \<^verbatim>\<open>class\<close>.\<close>

definition hasClass :: "node \<Rightarrow> string \<Rightarrow> bool" where
  "hasClass n c =
     (case getAttribute n ''class'' of
        None \<Rightarrow> False
      | Some cls \<Rightarrow> c \<in> set (split (CHR '' '') cls))"

fun isElement :: "node \<Rightarrow> bool" where
  "isElement (El t as v c ks) = True"
| "isElement (Txt s) = False"

text \<open>The elements below a node in document order, the node itself excluded.\<close>

fun descendants :: "node \<Rightarrow> node list" where
  "descendants (Txt s) = []"
| "descendants (El t as v c ks) = concat (map (\<lambda>k. if isElement k then k # descendants k else []) ks)"

section \<open>Collecting the form data\<close>

text \<open>
  The conversions between numbers and strings are those of the JavaScript engine and are
  parameters: \<open>Number s\<close> is \<^verbatim>\<open>Number(s)\<close> and \<open>parseFloat s\<close> is \<^verbatim>\<open>parseFloat(s)\<close>, with
  \<open>None\<close> for \<^verbatim>\<open>NaN\<close>; \<open>numToString r\<close> is \<^verbatim>\<open>String(r)\<close>.
\<close>

record js =
  Number :: "string \<Rightarrow> rat option"
  parseFloat :: "string \<Rightarrow> rat option"
  numToString :: "rat \<Rightarrow> string"

definition num :: "rat option \<Rightarrow> jv" where
  "num r = (case r of None \<Rightarrow> JNaN | Some x \<Rightarrow> JNum x)"

text \<open>
  The selector of \<^verbatim>\<open>collectFormData\<close>:
  \<^verbatim>\<open>input[data-path]:not([data-union]), select[data-path]:not([data-union]),
  textarea[data-path]:not([data-union])\<close>
\<close>

definition isBindable :: "node \<Rightarrow> bool" where
  "isBindable n =
     (isElement n \<and> (tag n = ''input'' \<or> tag n = ''select'' \<or> tag n = ''textarea'')
      \<and> hasAttribute n ''data-path'' \<and> \<not> hasAttribute n ''data-union'')"

text \<open>\<^verbatim>\<open>el.dataset.path || ''\<close> and \<^verbatim>\<open>el.dataset.type\<close>\<close>

definition dataPath :: "node \<Rightarrow> string" where
  "dataPath n = (case getAttribute n ''data-path'' of None \<Rightarrow> [] | Some p \<Rightarrow> p)"

definition dataType :: "node \<Rightarrow> string option" where
  "dataType n = getAttribute n ''data-type''"

text \<open>\<^verbatim>\<open>el instanceof HTMLInputElement && el.type === 'checkbox'\<close>\<close>

definition isCheckbox :: "node \<Rightarrow> bool" where
  "isCheckbox n = (isElement n \<and> tag n = ''input'' \<and> getAttribute n ''type'' = Some ''checkbox'')"

text \<open>The value one control contributes: the \<^verbatim>\<open>if\<close> chain in the loop body.\<close>

definition controlValue :: "js \<Rightarrow> node \<Rightarrow> jv" where
  "controlValue j el =
     (if isCheckbox el then JBool (checked el)
      else if dataType el = Some ''number'' \<or> dataType el = Some ''integer'' then
        (if val el = [] then JUndef else num (Number j (val el)))
      else if dataType el = Some ''boolean'' then JBool (val el = ''true'')
      else JStr (val el))"

text \<open>
  \<^verbatim>\<open>inputs.forEach(...)\<close>: a control with an empty path is skipped, every other one is
  written into \<open>data\<close>; an exception of the write ends the loop.
\<close>

fun collectLoop :: "js \<Rightarrow> node list \<Rightarrow> jv \<Rightarrow> error + jv" where
  "collectLoop j [] data = Inr data"
| "collectLoop j (el # els) data =
     (if dataPath el = [] then collectLoop j els data
      else (case setValueByPath data (dataPath el) (controlValue j el) of
              Inl e \<Rightarrow> Inl e
            | Inr data' \<Rightarrow> collectLoop j els data'))"

definition collectFormData :: "js \<Rightarrow> node \<Rightarrow> error + jv" where
  "collectFormData j form = collectLoop j (filter isBindable (descendants form)) (JObj [])"

section \<open>The component\<close>

text \<open>
  \<^verbatim>\<open>class SchemaForm\<close>. The roots of value trees live in a store, so that returning the
  bound value and returning a new object differ: the store is the list of the objects
  allocated so far, an address is an index into it, and \<open>c_data\<close> is the address of the
  bound value \<^verbatim>\<open>_data\<close>. \<open>c_form\<close> is the \<^verbatim>\<open>form\<close> element below the component, \<open>None\<close>
  before the first render and while the empty-state placeholder is shown.
\<close>

type_synonym addr = nat

type_synonym store = "jv list"

record component =
  c_schema :: schema
  c_data :: addr
  c_form :: "node option"


subsection \<open>An instance of the number conversions\<close>

text \<open>
  For the examples: the conversions on the decimal numerals of natural numbers, where
  the engine's \<^verbatim>\<open>Number\<close>, \<^verbatim>\<open>parseFloat\<close> and \<^verbatim>\<open>String\<close> agree with them. Every other
  string is read as \<^verbatim>\<open>NaN\<close> here.
\<close>

definition decNumber :: "string \<Rightarrow> rat option" where
  "decNumber s = (if allDigits s then Some (of_nat (decimal s)) else None)"

definition decString :: "rat \<Rightarrow> string" where
  "decString r = natToString (nat \<lfloor>r\<rfloor>)"

definition dec_js :: js where
  "dec_js = \<lparr> Number = decNumber, parseFloat = decNumber, numToString = decString \<rparr>"




section \<open>Rendering\<close>

text \<open>
  The element factory \<^verbatim>\<open>elements\<close> belongs to the library \<^verbatim>\<open>tosijs\<close>, which is not part of
  the repository. It is taken to do what the rendered markup of the specification shows:
  an attribute whose value is \<^verbatim>\<open>undefined\<close> is not set, a boolean attribute is present
  exactly when it is \<^verbatim>\<open>true\<close>, every other value is set as its string, \<^verbatim>\<open>value\<close> and
  \<^verbatim>\<open>checked\<close> set the properties of the control, and an \<^verbatim>\<open>on...\<close> entry is a listener
  and no attribute. A control holds the value it was given: the sanitisation a browser
  applies to the value of an input is not represented.
\<close>

subsection \<open>Strings\<close>

text \<open>\<^verbatim>\<open>a ?? b\<close>, a truthy value, \<^verbatim>\<open>String(v)\<close> and the decimal numeral of an index.\<close>

definition coalesce :: "jv \<Rightarrow> jv \<Rightarrow> jv" where
  "coalesce a b = (if isNullish a then b else a)"

definition orUndef :: "jv option \<Rightarrow> jv" where
  "orUndef x = (case x of None \<Rightarrow> JUndef | Some v \<Rightarrow> v)"

fun truthy :: "jv \<Rightarrow> bool" where
  "truthy JUndef = False"
| "truthy JNull = False"
| "truthy (JBool b) = b"
| "truthy (JNum r) = (r \<noteq> 0)"
| "truthy JNaN = False"
| "truthy (JStr s) = (s \<noteq> [])"
| "truthy (JArr xs) = True"
| "truthy (JObj kvs) = True"

fun join :: "string \<Rightarrow> string list \<Rightarrow> string" where
  "join sep [] = []"
| "join sep [x] = x"
| "join sep (x # y # ys) = x @ sep @ join sep (y # ys)"

fun toStr :: "js \<Rightarrow> jv \<Rightarrow> string" where
  "toStr j JUndef = ''undefined''"
| "toStr j JNull = ''null''"
| "toStr j (JBool b) = (if b then ''true'' else ''false'')"
| "toStr j (JNum r) = numToString j r"
| "toStr j JNaN = ''NaN''"
| "toStr j (JStr s) = s"
| "toStr j (JArr xs) = join '','' (map (\<lambda>x. if isNullish x then [] else toStr j x) xs)"
| "toStr j (JObj kvs) = ''[object Object]''"

text \<open>\<^verbatim>\<open>String(n)\<close> of a number that may be \<^verbatim>\<open>NaN\<close>.\<close>

definition numStr :: "js \<Rightarrow> rat option \<Rightarrow> string" where
  "numStr j r = toStr j (num r)"

subsection \<open>Labels\<close>

text \<open>
  \<^verbatim>\<open>getLabel\<close>: the title, or the key with a space before every capital letter, with
  \<^verbatim>\<open>_\<close> and \<^verbatim>\<open>-\<close> turned into spaces, a capital first letter, and trimmed.
\<close>

definition isUpper :: "char \<Rightarrow> bool" where
  "isUpper c = (c \<in> set ''ABCDEFGHIJKLMNOPQRSTUVWXYZ'')"

definition toUpper :: "char \<Rightarrow> char" where
  "toUpper c =
     (case map_of (zip ''abcdefghijklmnopqrstuvwxyz'' ''ABCDEFGHIJKLMNOPQRSTUVWXYZ'') c of
        None \<Rightarrow> c
      | Some u \<Rightarrow> u)"

definition isSpace :: "char \<Rightarrow> bool" where
  "isSpace c = (c \<in> set [CHR '' '', CHR 0x09, CHR 0x0A, CHR 0x0B, CHR 0x0C, CHR 0x0D])"

definition trim :: "string \<Rightarrow> string" where
  "trim s = rev (dropWhile isSpace (rev (dropWhile isSpace s)))"

definition humanize :: "string \<Rightarrow> string" where
  "humanize key =
     trim (case map (\<lambda>c. if c = CHR ''_'' \<or> c = CHR ''-'' then CHR '' '' else c)
                  (concat (map (\<lambda>c. if isUpper c then [CHR '' '', c] else [c]) key)) of
             [] \<Rightarrow> []
           | c # cs \<Rightarrow> toUpper c # cs)"

definition getLabel :: "string \<Rightarrow> schema \<Rightarrow> string" where
  "getLabel key s =
     (case title (meta s) of
        None \<Rightarrow> humanize key
      | Some t \<Rightarrow> if t = [] then humanize key else t)"

text \<open>\<^verbatim>\<open>getUnionVariants\<close>: \<^verbatim>\<open>schema.anyOf || schema.oneOf || null\<close>; an array is truthy.\<close>

definition getUnionVariants :: "schema \<Rightarrow> schema list option" where
  "getUnionVariants s = (case anyOf s of Some vs \<Rightarrow> Some vs | None \<Rightarrow> oneOf s)"

text \<open>\<^verbatim>\<open>getVariantLabel\<close>\<close>

definition getVariantLabel :: "js \<Rightarrow> schema \<Rightarrow> nat \<Rightarrow> string" where
  "getVariantLabel j variant index =
     (if title (meta variant) \<noteq> None \<and> title (meta variant) \<noteq> Some [] then the (title (meta variant))
      else if s_const (meta variant) \<noteq> None then toStr j (the (s_const (meta variant)))
      else if s_type (meta variant) \<noteq> None \<and> s_type (meta variant) \<noteq> Some (TName []) then
        (case schemaType variant of Some t \<Rightarrow> t | None \<Rightarrow> ''undefined'')
      else
        (case properties variant of
           Some ps \<Rightarrow>
             (case find (\<lambda>k. k = ''type'' \<or> k = ''kind'' \<or> k = ''_type'') (map fst ps) of
                Some typeKey \<Rightarrow>
                  (case map_of ps typeKey of
                     Some p \<Rightarrow>
                       if truthy (orUndef (s_const (meta p))) then toStr j (orUndef (s_const (meta p)))
                       else ''Option '' @ natToString (index + 1)
                   | None \<Rightarrow> ''Option '' @ natToString (index + 1))
              | None \<Rightarrow> ''Option '' @ natToString (index + 1))
         | None \<Rightarrow> ''Option '' @ natToString (index + 1)))"

text \<open>\<^verbatim>\<open>getDefaultValue\<close>\<close>

fun getDefaultValue :: "schema \<Rightarrow> jv" where
  "getDefaultValue (Schema m ps it ao oo) =
     (case s_default m of
        Some d \<Rightarrow> d
      | None \<Rightarrow>
          (case schemaType (Schema m ps it ao oo) of
             None \<Rightarrow> JNull
           | Some t \<Rightarrow>
               if t = ''string'' then JStr []
               else if t = ''number'' \<or> t = ''integer'' then
                 (case minimum m of Some r \<Rightarrow> JNum r | None \<Rightarrow> JNum 0)
               else if t = ''boolean'' then JBool False
               else if t = ''array'' then JArr []
               else if t = ''object'' then
                 (case ps of
                    Some props \<Rightarrow> JObj (map (\<lambda>p. (fst p, getDefaultValue (snd p))) props)
                  | None \<Rightarrow> JObj [])
               else JNull))"

subsection \<open>Pieces of markup\<close>

definition optAttr :: "string \<Rightarrow> string option \<Rightarrow> (string \<times> string) list" where
  "optAttr a x = (case x of None \<Rightarrow> [] | Some s \<Rightarrow> [(a, s)])"

definition boolAttr :: "string \<Rightarrow> bool \<Rightarrow> (string \<times> string) list" where
  "boolAttr a b = (if b then [(a, [])] else [])"

text \<open>\<^verbatim>\<open>required ? span({ class: 'required' }, ' *') : ''\<close>\<close>

definition requiredMark :: "bool \<Rightarrow> node" where
  "requiredMark required =
     (if required then El ''span'' [(''class'', ''required'')] [] False [Txt '' *''] else Txt [])"

definition labelEl :: "string \<Rightarrow> bool \<Rightarrow> node" where
  "labelEl fieldLabel required = El ''label'' [] [] False [Txt fieldLabel, requiredMark required]"

definition legendEl :: "string \<Rightarrow> bool \<Rightarrow> node" where
  "legendEl fieldLabel required = El ''legend'' [] [] False [Txt fieldLabel, requiredMark required]"

text \<open>\<^verbatim>\<open>schema.description ? div({ class: 'description' }, schema.description) : ''\<close>\<close>

definition descriptionEl :: "schema \<Rightarrow> node" where
  "descriptionEl s =
     (case description (meta s) of
        None \<Rightarrow> Txt []
      | Some d \<Rightarrow> if d = [] then Txt [] else El ''div'' [(''class'', ''description'')] [] False [Txt d])"

definition optionEl :: "string \<Rightarrow> string \<Rightarrow> node" where
  "optionEl v text = El ''option'' [(''value'', v)] [] False [Txt text]"

text \<open>
  The value of a \<^verbatim>\<open>select\<close> with the option values \<open>opts\<close> after
  \<^verbatim>\<open>if (value !== undefined && value !== null) selectEl.value = String(value)\<close>: the first
  option while nothing was assigned, the assigned string when an option carries it, and
  the empty string when none does.
\<close>

definition selectValue :: "js \<Rightarrow> string list \<Rightarrow> jv \<Rightarrow> string" where
  "selectValue j opts v =
     (if isNullish v then (case opts of [] \<Rightarrow> [] | x # xs \<Rightarrow> x)
      else if toStr j v \<in> set opts then toStr j v
      else [])"

text \<open>The select of an enum and of a union whose variants all have a const.\<close>

definition enumSelect :: "js \<Rightarrow> string \<Rightarrow> schema \<Rightarrow> jv list \<Rightarrow> jv \<Rightarrow> string \<Rightarrow> bool \<Rightarrow> node" where
  "enumSelect j fieldLabel s values v path required =
     El ''div'' [(''class'', ''schema-field'')] [] False
       [labelEl fieldLabel required,
        descriptionEl s,
        El ''select'' ([(''name'', path)] @ boolAttr ''required'' required @ [(''data-path'', path)])
           (selectValue j ([] # map (toStr j) values) v) False
           (optionEl [] ''-- Select --'' # map (\<lambda>x. optionEl (toStr j x) (toStr j x)) values)]"

definition constSelect :: "js \<Rightarrow> string \<Rightarrow> schema \<Rightarrow> schema list \<Rightarrow> jv \<Rightarrow> string \<Rightarrow> bool \<Rightarrow> node" where
  "constSelect j fieldLabel s variants v path required =
     El ''div'' [(''class'', ''schema-field'')] [] False
       [labelEl fieldLabel required,
        descriptionEl s,
        El ''select'' ([(''name'', path)] @ boolAttr ''required'' required @ [(''data-path'', path)])
           (selectValue j ([] # map (\<lambda>x. toStr j (orUndef (s_const (meta x)))) variants) v) False
           (optionEl [] ''-- Select --'' #
            map (\<lambda>x. optionEl (toStr j (orUndef (s_const (meta x))))
                       (if title (meta x) \<noteq> None \<and> title (meta x) \<noteq> Some [] then the (title (meta x))
                        else toStr j (orUndef (s_const (meta x))))) variants)]"

text \<open>\<^verbatim>\<open>renderStringField\<close>\<close>

definition formatToType :: "string \<Rightarrow> string option" where
  "formatToType f =
     map_of [(''email'', ''email''), (''uri'', ''url''), (''url'', ''url''),
             (''date-time'', ''datetime-local''), (''date'', ''date''), (''time'', ''time''),
             (''password'', ''password'')] f"

definition renderStringField :: "js \<Rightarrow> string \<Rightarrow> schema \<Rightarrow> jv \<Rightarrow> string \<Rightarrow> bool \<Rightarrow> node" where
  "renderStringField j fieldLabel s v path required =
     (let inputType =
            (case format (meta s) of
               None \<Rightarrow> ''text''
             | Some f \<Rightarrow> if f = [] then ''text''
                         else (case formatToType f of None \<Rightarrow> ''text'' | Some t \<Rightarrow> if t = [] then ''text'' else t));
          isTextarea = (case maxLength (meta s) of None \<Rightarrow> False | Some n \<Rightarrow> n \<noteq> 0 \<and> n > 200);
          text = toStr j (coalesce (coalesce v (orUndef (s_default (meta s)))) (JStr []));
          inputAttrs =
            [(''name'', path)] @ boolAttr ''required'' required @
            [(''data-path'', path), (''data-type'', ''string'')] @
            (case minLength (meta s) of None \<Rightarrow> [] | Some n \<Rightarrow> if n = 0 then [] else [(''minLength'', numToString j n)]) @
            (case maxLength (meta s) of None \<Rightarrow> [] | Some n \<Rightarrow> if n = 0 then [] else [(''maxLength'', numToString j n)]) @
            (case pattern (meta s) of None \<Rightarrow> [] | Some p \<Rightarrow> if p = [] then [] else [(''pattern'', p)]) @
            (if format (meta s) = Some ''email'' then [(''placeholder'', ''email@example.com'')] else []) @
            (if format (meta s) = Some ''url'' \<or> format (meta s) = Some ''uri''
             then [(''placeholder'', ''https://'')] else [])
      in El ''div'' [(''class'', ''schema-field'')] [] False
           [labelEl fieldLabel required,
            descriptionEl s,
            if isTextarea then El ''textarea'' (inputAttrs @ [(''rows'', ''4'')]) text False [Txt text]
            else El ''input'' ((''type'', inputType) # inputAttrs) text False []])"

text \<open>
  The cases \<^verbatim>\<open>'number'\<close> and \<^verbatim>\<open>'integer'\<close> of \<^verbatim>\<open>renderField\<close>. \<open>schemaTy\<close> is the
  \<^verbatim>\<open>schemaType\<close> of the switch. \<open>stepVal\<close> is \<^verbatim>\<open>NaN\<close> when a bound is missing.
\<close>

definition hasRange :: "schema \<Rightarrow> bool" where
  "hasRange s =
     (format (meta s) = Some ''range'' \<or> (minimum (meta s) \<noteq> None \<and> maximum (meta s) \<noteq> None))"

definition rangeInput :: "js \<Rightarrow> string \<Rightarrow> schema \<Rightarrow> jv \<Rightarrow> string \<Rightarrow> bool \<Rightarrow> node" where
  "rangeInput j schemaTy s v path required =
     (let stepVal = (if schemaTy = ''integer'' then Some 1
                     else (case (maximum (meta s), minimum (meta s)) of
                             (Some hi, Some lo) \<Rightarrow> Some ((hi - lo) / 100)
                           | _ \<Rightarrow> None));
          currentVal = coalesce (coalesce (coalesce v (orUndef (s_default (meta s))))
                          (num (minimum (meta s)))) (JNum 0)
      in El ''input''
           ([(''type'', ''range''), (''name'', path)] @
            optAttr ''min'' (map_option (numToString j) (minimum (meta s))) @
            optAttr ''max'' (map_option (numToString j) (maximum (meta s))) @
            [(''step'', numStr j stepVal)] @
            boolAttr ''required'' required @
            [(''data-path'', path), (''data-type'', schemaTy)])
           (toStr j currentVal) False [])"

definition numberInput :: "js \<Rightarrow> string \<Rightarrow> schema \<Rightarrow> jv \<Rightarrow> node" where
  "numberInput j schemaTy s v =
     (let currentVal = coalesce (coalesce (coalesce v (orUndef (s_default (meta s))))
                          (num (minimum (meta s)))) (JNum 0)
      in El ''input''
           ([(''type'', ''number'')] @
            optAttr ''min'' (map_option (numToString j) (minimum (meta s))) @
            optAttr ''max'' (map_option (numToString j) (maximum (meta s))) @
            [(''step'', if schemaTy = ''integer'' then numToString j 1 else ''any''),
             (''class'', ''schema-range-number'')])
           (toStr j currentVal) False [])"

definition renderNumberField :: "js \<Rightarrow> string \<Rightarrow> string \<Rightarrow> schema \<Rightarrow> jv \<Rightarrow> string \<Rightarrow> bool \<Rightarrow> node" where
  "renderNumberField j fieldLabel schemaTy s v path required =
     (if hasRange s then
        El ''div'' [(''class'', ''schema-field schema-field-range'')] [] False
          [labelEl fieldLabel required,
           descriptionEl s,
           El ''div'' [(''class'', ''schema-range-container'')] [] False
             [rangeInput j schemaTy s v path required, numberInput j schemaTy s v]]
      else
        El ''div'' [(''class'', ''schema-field'')] [] False
          [labelEl fieldLabel required,
           descriptionEl s,
           El ''input''
             ([(''type'', ''number''), (''name'', path)] @
              optAttr ''min'' (map_option (numToString j) (minimum (meta s))) @
              optAttr ''max'' (map_option (numToString j) (maximum (meta s))) @
              [(''step'', if schemaTy = ''integer'' then numToString j 1 else ''any'')] @
              boolAttr ''required'' required @
              [(''data-path'', path), (''data-type'', schemaTy)])
             (toStr j (coalesce (coalesce v (orUndef (s_default (meta s)))) (JStr []))) False []])"

text \<open>
  The two listeners of the range pair, on the element \<^verbatim>\<open>.schema-range-container\<close> that
  holds the range input and the number input. \<open>userInput\<close> is an edit by the user: the
  control \<open>i\<close> of the pair takes the typed string, then its \<^verbatim>\<open>input\<close> listener runs.
\<close>

fun setVal :: "string \<Rightarrow> node \<Rightarrow> node" where
  "setVal x (El t as v c ks) = El t as x c ks"
| "setVal x (Txt s) = Txt s"






text \<open>The case \<^verbatim>\<open>'boolean'\<close> and the \<^verbatim>\<open>default\<close> case of \<^verbatim>\<open>renderField\<close>.\<close>

definition renderBooleanField :: "string \<Rightarrow> schema \<Rightarrow> jv \<Rightarrow> string \<Rightarrow> bool \<Rightarrow> node" where
  "renderBooleanField fieldLabel s v path required =
     El ''div'' [(''class'', ''schema-field schema-field-boolean'')] [] False
       [El ''label'' [] [] False
          [El ''input'' [(''type'', ''checkbox''), (''name'', path), (''data-path'', path),
                         (''data-type'', ''boolean'')]
              [] (truthy (coalesce (coalesce v (orUndef (s_default (meta s)))) (JBool False))) [],
           Txt '' '',
           Txt fieldLabel,
           requiredMark required],
        descriptionEl s]"

definition renderTextField :: "js \<Rightarrow> string \<Rightarrow> schema \<Rightarrow> jv \<Rightarrow> string \<Rightarrow> bool \<Rightarrow> node" where
  "renderTextField j fieldLabel s v path required =
     El ''div'' [(''class'', ''schema-field'')] [] False
       [labelEl fieldLabel required,
        descriptionEl s,
        El ''input'' ([(''type'', ''text''), (''name'', path)] @ boolAttr ''required'' required @
                      [(''data-path'', path)])
           (toStr j (coalesce (coalesce v (orUndef (s_default (meta s)))) (JStr []))) False []]"

subsection \<open>The recursive renderer\<close>

text \<open>\<^verbatim>\<open>xs[i]\<close> where the source goes on to read a member of the element.\<close>

definition nthOpt :: "'a list \<Rightarrow> nat \<Rightarrow> 'a option" where
  "nthOpt xs i = (if i < length xs then Some (xs ! i) else None)"

text \<open>The first error of a list of results, or all the values.\<close>

fun sequence :: "(error + 'a) list \<Rightarrow> error + 'a list" where
  "sequence [] = Inr []"
| "sequence (x # xs) =
     (case x of
        Inl e \<Rightarrow> Inl e
      | Inr a \<Rightarrow> (case sequence xs of Inl e \<Rightarrow> Inl e | Inr as \<Rightarrow> Inr (a # as)))"

text \<open>\<^verbatim>\<open>schema.required || []\<close> and \<^verbatim>\<open>schema.items || { type: 'string' }\<close>\<close>

definition requiredFields :: "schema \<Rightarrow> string list" where
  "requiredFields s = (case s_required (meta s) of None \<Rightarrow> [] | Some r \<Rightarrow> r)"

definition itemSchemaOf :: "schema \<Rightarrow> schema" where
  "itemSchemaOf s = (case items s of Some i \<Rightarrow> i | None \<Rightarrow> str_s)"

text \<open>\<^verbatim>\<open>`${path}.${propKey}`\<close> and \<^verbatim>\<open>`${path}[${index}]`\<close>\<close>

definition propPath :: "string \<Rightarrow> string \<Rightarrow> string" where
  "propPath path propKey = path @ ''.'' @ propKey"

definition itemPath :: "string \<Rightarrow> nat \<Rightarrow> string" where
  "itemPath path index = path @ ''['' @ natToString index @ '']''"

text \<open>The variant selector with the content of the current variant.\<close>

definition unionFieldset ::
  "js \<Rightarrow> string \<Rightarrow> schema \<Rightarrow> schema list \<Rightarrow> nat \<Rightarrow> string \<Rightarrow> bool \<Rightarrow> node list \<Rightarrow> node" where
  "unionFieldset j fieldLabel s variants currentVariantIndex path required content =
     El ''fieldset'' [(''class'', ''schema-union''), (''data-path'', path)] [] False
       [legendEl fieldLabel required,
        descriptionEl s,
        El ''div'' [(''class'', ''schema-union-selector-container'')] [] False
          [El ''select'' [(''class'', ''schema-union-selector''), (''data-path'', path),
                          (''data-union'', ''true'')]
              (natToString currentVariantIndex) False
              (map (\<lambda>i. El ''option''
                          ((''value'', natToString i) # boolAttr ''selected'' (i = currentVariantIndex))
                          [] False [Txt (getVariantLabel j (variants ! i) i)])
                   [0..<length variants])],
        El ''div'' [(''class'', ''schema-union-content''),
                    (''data-variant'', natToString currentVariantIndex)] [] False content]"

text \<open>The remove button, and an array item around its content.\<close>

definition removeButton :: node where
  "removeButton =
     El ''button'' [(''type'', ''button''), (''class'', ''schema-array-remove'')] [] False
       [Txt [CHR 0xC3, CHR 0x97]]"

definition arrayItemEl :: "nat \<Rightarrow> nat option \<Rightarrow> node \<Rightarrow> node" where
  "arrayItemEl index variantIndex itemContent =
     El ''div''
       ([(''class'', ''schema-array-item''), (''data-index'', natToString index)] @
        optAttr ''data-variant'' (map_option natToString variantIndex))
       [] False [removeButton, itemContent]"

text \<open>The add controls: a variant picker with a button for a union, else one button.\<close>

definition addControls :: "js \<Rightarrow> schema \<Rightarrow> string \<Rightarrow> node" where
  "addControls j s path =
     (case getUnionVariants (itemSchemaOf s) of
        Some itemVariants \<Rightarrow>
          El ''div'' [(''class'', ''schema-array-add-controls'')] [] False
            [El ''select'' [(''class'', ''schema-array-variant-select'')]
                (case itemVariants of [] \<Rightarrow> [] | x # xs \<Rightarrow> ''0'') False
                (map (\<lambda>i. El ''option'' [(''value'', natToString i)] [] False
                            [Txt (getVariantLabel j (itemVariants ! i) i)])
                     [0..<length itemVariants]),
             El ''button'' [(''type'', ''button''), (''class'', ''schema-array-add'')] [] False
                [Txt ''+ Add'']]
      | None \<Rightarrow>
          El ''button'' [(''type'', ''button''), (''class'', ''schema-array-add''),
                         (''data-path'', path)] [] False [Txt ''+ Add Item''])"

definition arrayConstraints :: "js \<Rightarrow> schema \<Rightarrow> node" where
  "arrayConstraints j s =
     (if minItems (meta s) \<noteq> None \<or> maxItems (meta s) \<noteq> None then
        El ''div'' [(''class'', ''array-constraints'')] [] False
          [Txt (case minItems (meta s) of Some n \<Rightarrow> ''Min: '' @ numToString j n | None \<Rightarrow> []),
           Txt (if minItems (meta s) \<noteq> None \<and> maxItems (meta s) \<noteq> None then '' | '' else []),
           Txt (case maxItems (meta s) of Some n \<Rightarrow> ''Max: '' @ numToString j n | None \<Rightarrow> [])]
      else Txt [])"

definition arrayContainer :: "string \<Rightarrow> node list \<Rightarrow> node" where
  "arrayContainer path itemEls =
     El ''div'' [(''class'', ''schema-array-items''), (''data-path'', path)] [] False itemEls"

definition arrayFieldset :: "js \<Rightarrow> string \<Rightarrow> schema \<Rightarrow> string \<Rightarrow> bool \<Rightarrow> node list \<Rightarrow> node" where
  "arrayFieldset j fieldLabel s path required itemEls =
     El ''fieldset'' [(''class'', ''schema-array''), (''data-path'', path)] [] False
       [legendEl fieldLabel required,
        descriptionEl s,
        arrayContainer path itemEls,
        addControls j s path,
        arrayConstraints j s]"

definition objectFieldset :: "string \<Rightarrow> schema \<Rightarrow> string \<Rightarrow> bool \<Rightarrow> node list \<Rightarrow> node" where
  "objectFieldset fieldLabel s path required fieldEls =
     El ''fieldset'' [(''class'', ''schema-object''), (''data-path'', path)] [] False
       ([legendEl fieldLabel required, descriptionEl s] @ fieldEls)"

text \<open>
  The measure of the recursion: the number of schema nodes, and a bonus for an array
  schema with no \<^verbatim>\<open>items\<close>, whose items are rendered with \<^verbatim>\<open>{ type: 'string' }\<close>.
\<close>

fun wt :: "schema \<Rightarrow> nat" where
  "wt (Schema m ps it ao oo) =
     1 + (case ps of None \<Rightarrow> 0 | Some l \<Rightarrow> sum_list (map (\<lambda>p. wt (snd p)) l))
       + (case it of None \<Rightarrow> 0 | Some i \<Rightarrow> wt i)
       + (case ao of None \<Rightarrow> 0 | Some l \<Rightarrow> sum_list (map wt l))
       + (case oo of None \<Rightarrow> 0 | Some l \<Rightarrow> sum_list (map wt l))"

definition bonus :: "schema \<Rightarrow> nat" where
  "bonus s = (if schemaType s = Some ''array'' \<and> items s = None then 8 else 0)"

lemma wt_pos: "0 < wt s"
  by (cases s) simp

lemma wt_member: "x \<in> set l \<Longrightarrow> wt x \<le> sum_list (map wt l)"
  by (induction l) auto

lemma wt_member_snd: "p \<in> set l \<Longrightarrow> wt (snd p) \<le> sum_list (map (\<lambda>p. wt (snd p)) l)"
  by (induction l) auto

lemma wt_properties: "properties s = Some ps \<Longrightarrow> p \<in> set ps \<Longrightarrow> wt (snd p) < wt s"
  using wt_member_snd[of p ps] by (cases s) simp

lemma wt_items: "items s = Some i \<Longrightarrow> wt i < wt s"
  by (cases s) simp

lemma wt_variants: "getUnionVariants s = Some vs \<Longrightarrow> x \<in> set vs \<Longrightarrow> wt x < wt s"
  using wt_member[of x vs] by (cases s) (auto simp: getUnionVariants_def split: option.splits)

lemma nthOpt_member: "nthOpt xs i = Some x \<Longrightarrow> x \<in> set xs"
  by (auto simp: nthOpt_def split: if_splits)

lemma wt_str_s: "wt str_s = 1" "bonus str_s = 0" "getUnionVariants str_s = None"
  by (simp_all add: str_s_def leaf_def bonus_def schemaType_def getUnionVariants_def no_meta_def)

function renderField :: "js \<Rightarrow> string \<Rightarrow> schema \<Rightarrow> jv \<Rightarrow> string \<Rightarrow> bool \<Rightarrow> error + node"
  and renderObjectField :: "js \<Rightarrow> string \<Rightarrow> schema \<Rightarrow> jv \<Rightarrow> string \<Rightarrow> bool \<Rightarrow> error + node"
  and renderArrayField :: "js \<Rightarrow> string \<Rightarrow> schema \<Rightarrow> jv \<Rightarrow> string \<Rightarrow> bool \<Rightarrow> error + node"
  and renderArrayItem :: "js \<Rightarrow> schema \<Rightarrow> jv \<Rightarrow> string \<Rightarrow> nat \<Rightarrow> nat option \<Rightarrow> error + node"
where
  "renderField j key s v path required =
     (case getUnionVariants s of
        Some variants \<Rightarrow>
          (if list_all (\<lambda>x. s_const (meta x) \<noteq> None) variants
           then Inr (constSelect j (getLabel key s) s variants v path required)
           else
             (case nthOpt variants (detectVariant v variants) of
                None \<Rightarrow> Inl TypeError
              | Some currentVariant \<Rightarrow>
                  (case (if s_type (meta currentVariant) = Some (TName ''object'')
                         then (case properties currentVariant of
                                 Some props \<Rightarrow>
                                   sequence (map (\<lambda>p. renderField j (fst p) (snd p)
                                                      (if isNullish v then JUndef else child v (fst p))
                                                      (propPath path (fst p))
                                                      (fst p \<in> set (requiredFields currentVariant)))
                                             props)
                               | None \<Rightarrow> sequence [renderField j key currentVariant v path required])
                         else sequence [renderField j key currentVariant v path required]) of
                     Inl e \<Rightarrow> Inl e
                   | Inr content \<Rightarrow>
                       Inr (unionFieldset j (getLabel key s) s variants (detectVariant v variants)
                              path required content))))
      | None \<Rightarrow>
          (case s_enum (meta s) of
             Some values \<Rightarrow> Inr (enumSelect j (getLabel key s) s values v path required)
           | None \<Rightarrow>
               (case schemaType s of
                  None \<Rightarrow> Inr (renderTextField j (getLabel key s) s v path required)
                | Some t \<Rightarrow>
                    if t = ''string'' then Inr (renderStringField j (getLabel key s) s v path required)
                    else if t = ''number'' \<or> t = ''integer''
                      then Inr (renderNumberField j (getLabel key s) t s v path required)
                    else if t = ''boolean'' then Inr (renderBooleanField (getLabel key s) s v path required)
                    else if t = ''object''
                      then renderObjectField j key s (if truthy v then v else JObj []) path required
                    else if t = ''array''
                      then renderArrayField j key s (if truthy v then v else JArr []) path required
                    else Inr (renderTextField j (getLabel key s) s v path required))))"
| "renderObjectField j key s v path required =
     (case properties s of
        None \<Rightarrow>
          Inr (El ''div'' [(''class'', ''schema-field'')] [] False
                 [Txt (''Object without properties: '' @ key)])
      | Some props \<Rightarrow>
          (case sequence (map (\<lambda>p. renderField j (fst p) (snd p) (child v (fst p))
                                     (propPath path (fst p)) (fst p \<in> set (requiredFields s)))
                            props) of
             Inl e \<Rightarrow> Inl e
           | Inr fieldEls \<Rightarrow> Inr (objectFieldset (getLabel key s) s path required fieldEls)))"
| "renderArrayField j key s v path required =
     (case v of
        JArr xs \<Rightarrow>
          (case sequence
                  (map (\<lambda>index.
                          (case getUnionVariants (itemSchemaOf s) of
                             Some itemVariants \<Rightarrow>
                               (case nthOpt itemVariants (detectVariant (xs ! index) itemVariants) of
                                  None \<Rightarrow> Inl TypeError
                                | Some variant \<Rightarrow>
                                    renderArrayItem j variant (xs ! index) (itemPath path index) index
                                      (Some (detectVariant (xs ! index) itemVariants)))
                           | None \<Rightarrow>
                               renderArrayItem j (itemSchemaOf s) (xs ! index) (itemPath path index)
                                 index None))
                       [0..<length xs]) of
             Inl e \<Rightarrow> Inl e
           | Inr itemEls \<Rightarrow> Inr (arrayFieldset j (getLabel key s) s path required itemEls))
      | _ \<Rightarrow> Inl TypeError)"
| "renderArrayItem j s v path index variantIndex =
     (case renderField j
             (case variantIndex of
                Some vi \<Rightarrow> getVariantLabel j s vi
              | None \<Rightarrow> ''Item '' @ natToString (index + 1))
             s v path False of
        Inl e \<Rightarrow> Inl e
      | Inr itemContent \<Rightarrow> Inr (arrayItemEl index variantIndex itemContent))"
  by pat_completeness auto
lemma bonus_le: "bonus s \<le> 8"
  by (simp add: bonus_def)

lemma term_variant:
  assumes "getUnionVariants s = Some vs" "nthOpt vs i = Some x"
  shows "16 * wt x + bonus x < 16 * wt s + bonus s"
  using wt_variants[OF assms(1) nthOpt_member[OF assms(2)]] bonus_le[of x] by arith

lemma term_variant_prop:
  assumes "getUnionVariants s = Some vs" "nthOpt vs i = Some x" "properties x = Some ps" "p \<in> set ps"
  shows "16 * wt (snd p) + bonus (snd p) < 16 * wt s + bonus s"
  using wt_variants[OF assms(1) nthOpt_member[OF assms(2)]] wt_properties[OF assms(3,4)]
    bonus_le[of "snd p"] by arith

lemma term_prop:
  assumes "properties s = Some ps" "p \<in> set ps"
  shows "Suc (16 * wt (snd p) + bonus (snd p)) < 16 * wt s"
  using wt_properties[OF assms] bonus_le[of "snd p"] by arith

lemma term_item:
  "(items s = None \<longrightarrow> 16 * wt (itemSchemaOf s) + bonus (itemSchemaOf s) < 6 + 16 * wt s) \<and>
   ((\<exists>y. items s = Some y) \<longrightarrow> Suc (Suc (16 * wt (itemSchemaOf s) + bonus (itemSchemaOf s))) < 16 * wt s)"
proof (cases "items s")
  case None
  then show ?thesis using wt_pos[of s] by (simp add: itemSchemaOf_def wt_str_s)
next
  case (Some y)
  then show ?thesis using wt_items[OF Some] bonus_le[of y] by (simp add: itemSchemaOf_def)
qed

lemma term_item_variant:
  assumes "getUnionVariants (itemSchemaOf s) = Some vs" "nthOpt vs i = Some x"
  shows "(items s = None \<longrightarrow> 16 * wt x + bonus x < 6 + 16 * wt s) \<and>
   ((\<exists>y. items s = Some y) \<longrightarrow> Suc (Suc (16 * wt x + bonus x)) < 16 * wt s)"
proof (cases "items s")
  case None
  then show ?thesis using assms(1) by (simp add: itemSchemaOf_def wt_str_s)
next
  case (Some y)
  have "wt x < wt y"
    using wt_variants[OF _ nthOpt_member[OF assms(2)], of y] assms(1) Some
    by (simp add: itemSchemaOf_def)
  then show ?thesis using wt_items[OF Some] bonus_le[of x] Some by simp
qed

termination renderField
  apply (relation "measure (\<lambda>x. case x of
          Inl (Inl (j, key, s, v, path, required)) \<Rightarrow> 16 * wt s + 2 + bonus s
        | Inl (Inr (j, key, s, v, path, required)) \<Rightarrow> 16 * wt s + 1
        | Inr (Inl (j, key, s, v, path, required)) \<Rightarrow> 16 * wt s + 1 + (if items s = None then 8 else 0)
        | Inr (Inr (j, s, v, path, index, variantIndex)) \<Rightarrow> 16 * wt s + 3 + bonus s)")
        apply simp_all
        apply (simp add: bonus_def)
       apply (erule (1) term_variant)
      apply (erule (3) term_variant_prop)
     apply (erule (1) term_variant)
    apply (erule (1) term_prop)
   apply (rule term_item)
  apply (erule (1) term_item_variant)
  done

declare renderField.simps [simp del]
declare renderObjectField.simps [simp del]
declare renderArrayField.simps [simp del]
declare renderArrayItem.simps [simp del]

subsection \<open>The array item list\<close>

text \<open>
  \<^verbatim>\<open>currentPath.replace(/\[\d+\]/, `[${index}]`)\<close>: the pattern has no \<^verbatim>\<open>g\<close> flag, the
  first bracketed group of digits is replaced and the scan stops.
\<close>

fun replaceFirstIndex :: "string \<Rightarrow> string \<Rightarrow> string" where
  "replaceFirstIndex new [] = []"
| "replaceFirstIndex new (c # cs) =
     (if c = CHR ''['' then
        (case bracketIndex cs of
           Some (ds, rest) \<Rightarrow> new @ rest
         | None \<Rightarrow> c # replaceFirstIndex new cs)
      else c # replaceFirstIndex new cs)"

text \<open>
  The body of the inner \<^verbatim>\<open>forEach\<close> of \<^verbatim>\<open>reindexArrayItems\<close> for one element, and its
  application to an element and everything below it: \<^verbatim>\<open>querySelectorAll('[data-path]')\<close>
  reaches every descendant of the item.
\<close>

definition rewritePath :: "nat \<Rightarrow> node \<Rightarrow> node" where
  "rewritePath index n =
     (if hasAttribute n ''data-path'' then
        (let newPath = replaceFirstIndex (''['' @ natToString index @ '']'') (dataPath n);
             n' = setAttribute n ''data-path'' newPath
         in if hasAttribute n ''name'' then setAttribute n' ''name'' newPath else n')
      else n)"

fun rewritePaths :: "nat \<Rightarrow> node \<Rightarrow> node" where
  "rewritePaths index (Txt s) = Txt s"
| "rewritePaths index (El t as v c ks) = rewritePath index (El t as v c (map (rewritePaths index) ks))"

definition isItem :: "node \<Rightarrow> bool" where
  "isItem n = (isElement n \<and> hasClass n ''schema-array-item'')"

fun reindexItem :: "nat \<Rightarrow> node \<Rightarrow> node" where
  "reindexItem index (Txt s) = Txt s"
| "reindexItem index (El t as v c ks) =
     El t (assignAttr as ''data-index'' (natToString index)) v c (map (rewritePaths index) ks)"

text \<open>\<^verbatim>\<open>reindexArrayItems\<close>: the children \<^verbatim>\<open>:scope > .schema-array-item\<close> are numbered from 0.\<close>

fun reindexKids :: "nat \<Rightarrow> node list \<Rightarrow> node list" where
  "reindexKids index [] = []"
| "reindexKids index (k # ks) =
     (if isItem k then reindexItem index k # reindexKids (Suc index) ks
      else k # reindexKids index ks)"

fun reindexArrayItems :: "node \<Rightarrow> node" where
  "reindexArrayItems (Txt s) = Txt s"
| "reindexArrayItems (El t as v c ks) = El t as v c (reindexKids 0 ks)"

text \<open>
  The listener of the add button, on the element \<^verbatim>\<open>.schema-array-items\<close>: the container
  after the click and whether \<^verbatim>\<open>schema-change\<close> was dispatched. \<open>s\<close> and \<open>path\<close> are the
  array schema and the path the listener closes over; \<open>selected\<close> is the index the
  variant picker shows (read by the listener of a union array only).
\<close>

fun appendChild :: "node \<Rightarrow> node \<Rightarrow> node" where
  "appendChild (El t as v c ks) n = El t as v c (ks @ [n])"
| "appendChild (Txt s) n = Txt s"

definition itemCount :: "node \<Rightarrow> nat" where
  "itemCount container = length (filter isItem (kids container))"

definition atMaxItems :: "schema \<Rightarrow> nat \<Rightarrow> bool" where
  "atMaxItems s currentCount =
     (case maxItems (meta s) of None \<Rightarrow> False | Some m \<Rightarrow> of_nat currentCount \<ge> m)"

definition addButton_onClick :: "js \<Rightarrow> schema \<Rightarrow> string \<Rightarrow> nat \<Rightarrow> node \<Rightarrow> error + (node \<times> bool)" where
  "addButton_onClick j s path selected container =
     (if atMaxItems s (itemCount container) then Inr (container, False)
      else
        (case (case getUnionVariants (itemSchemaOf s) of
                 Some itemVariants \<Rightarrow>
                   (case nthOpt itemVariants selected of
                      None \<Rightarrow> Inl TypeError
                    | Some selectedVariant \<Rightarrow>
                        renderArrayItem j selectedVariant (getDefaultValue selectedVariant)
                          (itemPath path (itemCount container)) (itemCount container) (Some selected))
               | None \<Rightarrow>
                   renderArrayItem j (itemSchemaOf s) (getDefaultValue (itemSchemaOf s))
                     (itemPath path (itemCount container)) (itemCount container) None) of
           Inl e \<Rightarrow> Inl e
         | Inr newItem \<Rightarrow> Inr (reindexArrayItems (appendChild container newItem), True)))"

text \<open>
  The listener of a remove button, for the item that is child \<open>i\<close> of the container:
  \<^verbatim>\<open>item.remove(); reindexArrayItems(container)\<close> and the notification.
\<close>

fun removeChild :: "nat \<Rightarrow> node \<Rightarrow> node" where
  "removeChild i (El t as v c ks) = El t as v c (take i ks @ drop (Suc i) ks)"
| "removeChild i (Txt s) = Txt s"

definition removeButton_onClick :: "nat \<Rightarrow> node \<Rightarrow> node \<times> bool" where
  "removeButton_onClick i container = (reindexArrayItems (removeChild i container), True)"

text \<open>A change at the node reached from \<open>n\<close> by the child positions \<open>loc\<close>.\<close>

fun updateAt :: "nat list \<Rightarrow> (node \<Rightarrow> node) \<Rightarrow> node \<Rightarrow> node" where
  "updateAt [] f n = f n"
| "updateAt (i # loc) f (El t as v c ks) =
     (if i < length ks then El t as v c (ks[i := updateAt loc f (ks ! i)]) else El t as v c ks)"
| "updateAt (i # loc) f (Txt s) = Txt s"

subsection \<open>Rendering the component\<close>

text \<open>
  \<^verbatim>\<open>render()\<close>: no form while the schema has neither a type nor properties; else one field
  per property of the root schema, or the single field \<^verbatim>\<open>data\<close>. An exception of the
  renderer leaves the component without a form, its content having been cleared first.
  The assignment of \<^verbatim>\<open>data\<close> queues this render; \<open>setData\<close> is the assignment together
  with the queued render.
\<close>

definition renderForm :: "js \<Rightarrow> schema \<Rightarrow> jv \<Rightarrow> error + node option" where
  "renderForm j s d =
     (if (s_type (meta s) = None \<or> s_type (meta s) = Some (TName [])) \<and> properties s = None
      then Inr None
      else
        (case (case properties s of
                 Some props \<Rightarrow>
                   sequence (map (\<lambda>p. renderField j (fst p) (snd p)
                                       (if isNullish d then JUndef else child d (fst p))
                                       (fst p) (fst p \<in> set (requiredFields s)))
                             props)
               | None \<Rightarrow> sequence [renderField j ''data'' s d ''data'' False]) of
           Inl e \<Rightarrow> Inl e
         | Inr fieldEls \<Rightarrow> Inr (Some (El ''form'' [(''class'', ''schema-form'')] [] False fieldEls))))"

definition render :: "js \<Rightarrow> component \<Rightarrow> store \<Rightarrow> component" where
  "render j c h =
     c\<lparr>c_form := (case renderForm j (c_schema c) (h ! c_data c) of
                    Inl e \<Rightarrow> None
                  | Inr f \<Rightarrow> f)\<rparr>"

definition setData :: "js \<Rightarrow> addr \<Rightarrow> component \<Rightarrow> store \<Rightarrow> component" where
  "setData j a c h = render j (c\<lparr>c_data := a\<rparr>) h"


subsection \<open>Example schemas and forms of the renderer\<close>




text \<open>
  The const branch of \<^verbatim>\<open>renderField\<close> in the later revision \<^verbatim>\<open>blueprint.ts\<close>, which
  \<^verbatim>\<open>src/schema-form.ts\<close> does not have: a hidden input fixed to the literal and a span that
  shows it.
\<close>

definition renderConstField_blueprint :: "js \<Rightarrow> string \<Rightarrow> schema \<Rightarrow> jv \<Rightarrow> string \<Rightarrow> bool \<Rightarrow> node" where
  "renderConstField_blueprint j fieldLabel s c path required =
     El ''div'' [(''class'', ''schema-field schema-field-const'')] [] False
       [labelEl fieldLabel required,
        descriptionEl s,
        El ''input'' [(''type'', ''hidden''), (''name'', path), (''data-path'', path),
                      (''data-type'', if typeof c = ''number''
                                      then (if isInteger c then ''integer'' else ''number'')
                                      else typeof c),
                      (''data-const'', ''true'')]
           (toStr j c) False [],
        El ''span'' [(''class'', ''schema-const-value'')] [] False [Txt (toStr j c)]]"


text \<open>
  \<^verbatim>\<open>{ type: 'array', maxItems: 4, items: { type: 'string' } }\<close>, and
  \<^verbatim>\<open>{ type: 'array', maxItems: 5, items: { type: 'array', default: 'x' } }\<close>, whose items
  declare an array with a default that is a string.
\<close>

definition list_s :: schema where
  "list_s = Schema (no_meta\<lparr>s_type := Some (TName ''array''), maxItems := Some 4\<rparr>)
              None (Some str_s) None None"

definition odd_default_s :: schema where
  "odd_default_s =
     Schema (no_meta\<lparr>s_type := Some (TName ''array''), maxItems := Some 5\<rparr>) None
       (Some (leaf (no_meta\<lparr>s_type := Some (TName ''array''), s_default := Some (JStr ''x'')\<rparr>)))
       None None"


text \<open>
  The rendered item \<open>k\<close> of a string array at \<open>path\<close> holding \<open>x\<close>, the element
  \<^verbatim>\<open>.schema-array-items\<close> for the strings \<open>xs\<close>, and the fieldset of the array with the
  add button.
\<close>

definition str_item :: "string \<Rightarrow> nat \<Rightarrow> string \<Rightarrow> node" where
  "str_item path k x =
     arrayItemEl k None
       (renderStringField dec_js (''Item '' @ natToString (k + 1)) str_s (JStr x)
          (itemPath path k) False)"

definition str_box :: "string \<Rightarrow> string list \<Rightarrow> node" where
  "str_box path xs = arrayContainer path (map (\<lambda>k. str_item path k (xs ! k)) [0..<length xs])"

definition str_array :: "string \<Rightarrow> string \<Rightarrow> node \<Rightarrow> node \<Rightarrow> node" where
  "str_array fieldLabel path box constraints =
     El ''fieldset'' [(''class'', ''schema-array''), (''data-path'', path)] [] False
       [legendEl fieldLabel False, Txt [], box,
        El ''button'' [(''type'', ''button''), (''class'', ''schema-array-add''),
                       (''data-path'', path)] [] False [Txt ''+ Add Item''],
        constraints]"

text \<open>
  The form of \<^verbatim>\<open>{ type: 'object', properties: { list: { type: 'array', maxItems: 4,
  items: { type: 'string' } } } }\<close> around the items \<open>box\<close>.
\<close>

definition list_form_s :: schema where
  "list_form_s = obj_schema no_meta [(''list'', list_s)]"

definition list_form :: "node \<Rightarrow> node" where
  "list_form box =
     El ''form'' [(''class'', ''schema-form'')] [] False
       [str_array ''List'' ''list'' box
          (El ''div'' [(''class'', ''array-constraints'')] [] False [Txt [], Txt [], Txt ''Max: 4''])]"

text \<open>
  \<^verbatim>\<open>{ type: 'object', properties: { m: { type: 'array', items: { type: 'array', items:
  { type: 'string' } } } } }\<close>, the data \<^verbatim>\<open>{ m: [['a', 'b'], ['c', 'd']] }\<close>, and the form
  rendered from them.
\<close>

definition row_s :: schema where
  "row_s = Schema (no_meta\<lparr>s_type := Some (TName ''array'')\<rparr>) None (Some str_s) None None"

definition rows_s :: schema where
  "rows_s = Schema (no_meta\<lparr>s_type := Some (TName ''array'')\<rparr>) None (Some row_s) None None"

definition matrix_s :: schema where
  "matrix_s = obj_schema no_meta [(''m'', rows_s)]"

definition matrix_data :: jv where
  "matrix_data = JObj [(''m'', JArr [JArr [JStr ''a'', JStr ''b''], JArr [JStr ''c'', JStr ''d'']])]"

definition matrix_form :: node where
  "matrix_form =
     El ''form'' [(''class'', ''schema-form'')] [] False
       [str_array ''M'' ''m''
          (arrayContainer ''m''
             [arrayItemEl 0 None (str_array ''Item 1'' ''m[0]'' (str_box ''m[0]'' [''a'', ''b'']) (Txt [])),
              arrayItemEl 1 None (str_array ''Item 2'' ''m[1]'' (str_box ''m[1]'' [''c'', ''d'']) (Txt []))])
          (Txt [])]"

section \<open>Data that a form gives back\<close>

text \<open>
  A property name that stands for itself in a path: not empty, without \<^verbatim>\<open>.\<close> and \<^verbatim>\<open>[\<close>, and
  not a string of digits (the write would create a list for it).
\<close>

definition goodKey :: "string \<Rightarrow> bool" where
  "goodKey k = (k \<noteq> [] \<and> CHR ''.'' \<notin> set k \<and> CHR ''['' \<notin> set k \<and> \<not> allDigits k)"

text \<open>
  \<open>fits j s v\<close>: the value \<open>v\<close> conforms to the union-free schema \<open>s\<close> and every part of it
  is shown by a control. A string fits a string schema, an untyped schema and an enum
  that lists it; a boolean fits a boolean schema; a number fits a number or integer
  schema when the engine reads its own numeral back; an object fits an object schema
  when it has exactly the declared properties, in the declared order, and each value
  fits; an array fits an array schema when it is not empty and each element fits the
  item schema.
\<close>

inductive fits :: "js \<Rightarrow> schema \<Rightarrow> jv \<Rightarrow> bool" for j :: js where
  fits_string:
    "getUnionVariants s = None \<Longrightarrow> s_enum (meta s) = None \<Longrightarrow> schemaType s = Some ''string''
     \<Longrightarrow> fits j s (JStr x)"
| fits_untyped:
    "getUnionVariants s = None \<Longrightarrow> s_enum (meta s) = None \<Longrightarrow> schemaType s = None
     \<Longrightarrow> fits j s (JStr x)"
| fits_enum:
    "getUnionVariants s = None \<Longrightarrow> s_enum (meta s) = Some values \<Longrightarrow> JStr x \<in> set values
     \<Longrightarrow> fits j s (JStr x)"
| fits_boolean:
    "getUnionVariants s = None \<Longrightarrow> s_enum (meta s) = None \<Longrightarrow> schemaType s = Some ''boolean''
     \<Longrightarrow> fits j s (JBool b)"
| fits_number:
    "getUnionVariants s = None \<Longrightarrow> s_enum (meta s) = None \<Longrightarrow> schemaType s = Some t
     \<Longrightarrow> t = ''number'' \<or> t = ''integer''
     \<Longrightarrow> numToString j r \<noteq> [] \<Longrightarrow> Number j (numToString j r) = Some r
     \<Longrightarrow> fits j s (JNum r)"
| fits_object:
    "getUnionVariants s = None \<Longrightarrow> s_enum (meta s) = None \<Longrightarrow> schemaType s = Some ''object''
     \<Longrightarrow> properties s = Some props \<Longrightarrow> props \<noteq> []
     \<Longrightarrow> distinct (map fst props) \<Longrightarrow> list_all goodKey (map fst props)
     \<Longrightarrow> list_all2 (\<lambda>p kv. fst kv = fst p \<and> fits j (snd p) (snd kv)) props kvs
     \<Longrightarrow> fits j s (JObj kvs)"
| fits_array:
    "getUnionVariants s = None \<Longrightarrow> s_enum (meta s) = None \<Longrightarrow> schemaType s = Some ''array''
     \<Longrightarrow> getUnionVariants (itemSchemaOf s) = None
     \<Longrightarrow> xs \<noteq> [] \<Longrightarrow> length xs < 4294967295
     \<Longrightarrow> list_all (fits j (itemSchemaOf s)) xs
     \<Longrightarrow> fits j s (JArr xs)"

text \<open>
  The writes of a value tree in document order, each with the parts of its path:
  one write per leaf, the properties of an object and the elements of an array in turn.
\<close>

fun segWrites :: "string list \<Rightarrow> jv \<Rightarrow> (string list \<times> jv) list"
  and objSegs :: "string list \<Rightarrow> (string \<times> jv) list \<Rightarrow> (string list \<times> jv) list"
  and arrSegs :: "string list \<Rightarrow> nat \<Rightarrow> jv list \<Rightarrow> (string list \<times> jv) list"
where
  "segWrites ps (JObj kvs) = objSegs ps kvs"
| "segWrites ps (JArr xs) = arrSegs ps 0 xs"
| "segWrites ps JUndef = [(ps, JUndef)]"
| "segWrites ps JNull = [(ps, JNull)]"
| "segWrites ps (JBool b) = [(ps, JBool b)]"
| "segWrites ps (JNum r) = [(ps, JNum r)]"
| "segWrites ps JNaN = [(ps, JNaN)]"
| "segWrites ps (JStr s) = [(ps, JStr s)]"
| "objSegs ps [] = []"
| "objSegs ps (kv # kvs) = segWrites (ps @ [fst kv]) (snd kv) @ objSegs ps kvs"
| "arrSegs ps i [] = []"
| "arrSegs ps i (x # xs) = segWrites (ps @ [natToString i]) x @ arrSegs ps (Suc i) xs"

text \<open>A value tree without empty containers, with good and distinct keys.\<close>

fun full :: "jv \<Rightarrow> bool"
  and fullObj :: "(string \<times> jv) list \<Rightarrow> bool"
  and fullArr :: "jv list \<Rightarrow> bool"
where
  "full (JObj kvs) = (kvs \<noteq> [] \<and> distinct (map fst kvs) \<and> fullObj kvs)"
| "full (JArr xs) = (xs \<noteq> [] \<and> length xs < 4294967295 \<and> fullArr xs)"
| "full JUndef = True"
| "full JNull = True"
| "full (JBool b) = True"
| "full (JNum r) = True"
| "full JNaN = True"
| "full (JStr s) = True"
| "fullObj [] = True"
| "fullObj (kv # kvs) = (goodKey (fst kv) \<and> full (snd kv) \<and> fullObj kvs)"
| "fullArr [] = True"
| "fullArr (x # xs) = (full x \<and> fullArr xs)"

text \<open>A list of writes applied in turn.\<close>

fun foldSet :: "(string list \<times> jv) list \<Rightarrow> jv \<Rightarrow> error + jv" where
  "foldSet [] current = Inr current"
| "foldSet (w # ws) current =
     (case setParts current (fst w) (snd w) of
        Inl e \<Rightarrow> Inl e
      | Inr c \<Rightarrow> foldSet ws c)"

text \<open>The controls \<^verbatim>\<open>collectFormData\<close> visits at and below a node, in document order.\<close>

fun binds :: "node \<Rightarrow> node list" where
  "binds (Txt s) = []"
| "binds (El t as v c ks) =
     (if isBindable (El t as v c ks) then [El t as v c ks] else []) @ concat (map binds ks)"

definition segsOf :: "js \<Rightarrow> node \<Rightarrow> (string list \<times> jv) list" where
  "segsOf j n = map (\<lambda>el. (pathParts (dataPath el), controlValue j el)) (binds n)"

text \<open>
  \<^verbatim>\<open>{ type: 'object', required: ['name'], properties: { name: { type: 'string' }, age:
  { type: 'integer' }, active: { type: 'boolean' }, tags: { type: 'array', items:
  { type: 'string' } } } }\<close> and a value of it.
\<close>

definition person_s :: schema where
  "person_s =
     obj_schema (no_meta\<lparr>s_required := Some [''name'']\<rparr>)
       [(''name'', str_s), (''age'', int_s), (''active'', bool_s), (''tags'', row_s)]"

definition person :: jv where
  "person =
     JObj [(''name'', JStr ''Jane''), (''age'', JNum 30), (''active'', JBool True),
           (''tags'', JArr [JStr ''a'', JStr ''b''])]"


(*THEOREMS*)

section \<open>Properties of variant detection\<close>

lemmas example_schema_defs =
  str_s_def num_s_def int_s_def bool_s_def const_s_def tag_s_def product_def service_def
  consulting_def product_n_def service_n_def obj_schema_def leaf_def no_meta_def

lemmas detect_defs =
  detectVariant_def isNullish_def variantHit_def constHit_def typeMatch_def schemaType_def

lemma firstHit_first:
  "i < length xs \<Longrightarrow> P (xs ! i) \<Longrightarrow> \<forall>j<i. \<not> P (xs ! j) \<Longrightarrow> firstHit P xs n = Some (n + i)"
proof (induction xs arbitrary: i n)
  case Nil
  then show ?case by simp
next
  case (Cons x xs)
  show ?case
  proof (cases i)
    case 0
    with Cons.prems show ?thesis by simp
  next
    case (Suc k)
    with Cons.prems have "\<not> P x" by auto
    moreover have "firstHit P xs (Suc n) = Some (Suc n + k)"
      using Cons.prems Suc by (intro Cons.IH) auto
    ultimately show ?thesis using Suc by simp
  qed
qed

lemma firstHit_none: "(\<forall>x\<in>set xs. \<not> P x) \<Longrightarrow> firstHit P xs n = None"
  by (induction xs arbitrary: n) auto

lemma firstHit_exists: "\<exists>x\<in>set xs. P x \<Longrightarrow> \<exists>m. firstHit P xs n = Some m"
  by (induction xs arbitrary: n) auto

lemma firstHit_Some:
  "firstHit P xs n = Some m \<Longrightarrow>
     n \<le> m \<and> m - n < length xs \<and> P (xs ! (m - n)) \<and> (\<forall>j<m - n. \<not> P (xs ! j))"
proof (induction xs arbitrary: n)
  case Nil
  then show ?case by simp
next
  case (Cons x xs)
  show ?case
  proof (cases "P x")
    case True
    with Cons.prems show ?thesis by simp
  next
    case False
    with Cons.prems have h: "firstHit P xs (Suc n) = Some m" by simp
    from Cons.IH[OF h] have a: "Suc n \<le> m" "m - Suc n < length xs" "P (xs ! (m - Suc n))"
      "\<forall>j<m - Suc n. \<not> P (xs ! j)" by auto
    have e: "m - n = Suc (m - Suc n)" using a(1) by arith
    have "\<not> P ((x # xs) ! j)" if "j < Suc (m - Suc n)" for j
    proof (cases j)
      case 0
      then show ?thesis using False by simp
    next
      case (Suc k)
      then have "k < m - Suc n" using that by simp
      then show ?thesis using a(4) Suc by simp
    qed
    then show ?thesis using a(1,2,3) unfolding e by simp
  qed
qed

text \<open>What holds of the claim C2 on \<^verbatim>\<open>src/schema-form.ts\<close>: the default index.\<close>

lemma detectVariant_nullish: "isNullish v \<Longrightarrow> detectVariant v vs = 0"
  by (simp add: detectVariant_def)

lemma detectVariant_no_hit:
  assumes "\<forall>s\<in>set vs. \<not> variantHit v s"
  shows "detectVariant v vs = 0"
  using firstHit_none[OF assms, of 0] unfolding detectVariant_def by simp

lemma detectVariant_consulting: "detectVariant consulting [product, service] = 1"
  unfolding detect_defs example_schema_defs by simp

text \<open>
  The later revision \<^verbatim>\<open>blueprint.ts\<close> does run the const pass first: when some variant
  has a const strictly equal to the value, the first such variant is selected, whatever
  the variants before it are.
\<close>

lemma detectVariant_blueprint_const_first:
  assumes "\<not> isNullish v" "i < length vs" "constHit v (vs ! i)"
  shows "detectVariant_blueprint v vs \<le> i \<and> constHit v (vs ! detectVariant_blueprint v vs)
     \<and> (\<forall>j<detectVariant_blueprint v vs. \<not> constHit v (vs ! j))"
proof -
  have ex: "\<exists>x\<in>set vs. constHit v x" using assms(2,3) by auto
  obtain k where k: "firstHit (constHit v) vs 0 = Some k"
    using firstHit_exists[OF ex, of 0] by auto
  have d: "detectVariant_blueprint v vs = k"
    unfolding detectVariant_blueprint_def using assms(1) k by simp
  from firstHit_Some[OF k] have p: "k < length vs" "constHit v (vs ! k)"
    "\<forall>j<k. \<not> constHit v (vs ! j)"
    by auto
  have "k \<le> i"
  proof (rule ccontr)
    assume "\<not> k \<le> i"
    then have "i < k" by simp
    with p(3) assms(3) show False by blast
  qed
  then show ?thesis using p d by simp
qed


text \<open>
  C10: a discriminator mismatch does not eliminate an object variant. An object-typed
  variant with declared children is selected as soon as every declared child name is a
  key of the value (and no earlier variant was selected), whatever its discriminator
  consts are.
\<close>

lemma keys_all_present:
  "set ks \<subseteq> set (map fst kvs) \<Longrightarrow> length (filter (\<lambda>k. hasKey k (JObj kvs)) ks) = length ks"
  by (induction ks) auto

lemma typeMatch_key_superset:
  assumes "schemaType s = Some ''object''" "properties s = Some ps"
    "set (map fst ps) \<subseteq> set (map fst kvs)"
  shows "typeMatch (JObj kvs) s"
  using assms keys_all_present[OF assms(3)] unfolding typeMatch_def by simp

theorem detectVariant_key_superset:
  assumes "i < length vs" "\<forall>j<i. \<not> variantHit (JObj kvs) (vs ! j)"
    "schemaType (vs ! i) = Some ''object''" "properties (vs ! i) = Some ps"
    "set (map fst ps) \<subseteq> set (map fst kvs)"
  shows "detectVariant (JObj kvs) vs = i"
proof -
  have "variantHit (JObj kvs) (vs ! i)"
    using typeMatch_key_superset[OF assms(3,4,5)] by (simp add: variantHit_def)
  then have "firstHit (variantHit (JObj kvs)) vs 0 = Some (0 + i)"
    using assms(1,2) by (intro firstHit_first) auto
  then show ?thesis unfolding detectVariant_def isNullish_def by simp
qed

text \<open>
  The value \<^verbatim>\<open>{type:'service', name:'Consulting'}\<close> with the variants \<open>product_n\<close>,
  \<open>service_n\<close>: the discriminator of variant 0 is \<^verbatim>\<open>'product'\<close>, that of variant 1 is
  \<^verbatim>\<open>'service'\<close> and matches, and variant 0 is selected.
\<close>

theorem detectVariant_key_superset_witness:
  "detectVariant (JObj [(''type'', JStr ''service''), (''name'', JStr ''Consulting'')])
     [product_n, service_n] = 0
   \<and> \<not> discriminatorHit (JObj [(''type'', JStr ''service''), (''name'', JStr ''Consulting'')])
         [(''type'', tag_s ''product''), (''name'', str_s)]
   \<and> discriminatorHit (JObj [(''type'', JStr ''service''), (''name'', JStr ''Consulting'')])
         [(''type'', tag_s ''service''), (''name'', str_s)]"
proof -
  have "detectVariant (JObj [(''type'', JStr ''service''), (''name'', JStr ''Consulting'')])
     [product_n, service_n] = 0"
    by (rule detectVariant_key_superset[where ps = "[(''type'', tag_s ''product''), (''name'', str_s)]"])
       (simp_all add: schemaType_def example_schema_defs)
  then show ?thesis by (simp add: example_schema_defs)
qed

section \<open>Properties of the path utilities\<close>

lemmas path_eval =
  setValueByPath_def pathParts_def bracketIndex_def isDigit_def allDigits_def
  isNullish_def isIndex_def decimal_def digitVal_def

subsection \<open>Splitting a path\<close>

lemma bracketIndex_append:
  assumes "\<not> isDigit c" "c \<noteq> CHR '']''"
  shows "bracketIndex (xs @ c # t) = map_option (\<lambda>(ds, rest). (ds, rest @ c # t)) (bracketIndex xs)"
proof (cases "\<forall>x\<in>set xs. isDigit x")
  case True
  have a: "takeWhile isDigit (xs @ c # t) = xs" "dropWhile isDigit (xs @ c # t) = c # t"
    using True assms(1) by (auto simp: takeWhile_append2 dropWhile_append2)
  have b: "takeWhile isDigit xs = xs" "dropWhile isDigit xs = []"
    using True by auto
  show ?thesis using assms(2) unfolding bracketIndex_def a b by (simp add: Let_def)
next
  case False
  have a: "takeWhile isDigit (xs @ c # t) = takeWhile isDigit xs"
    "dropWhile isDigit (xs @ c # t) = dropWhile isDigit xs @ c # t"
    using False by (auto simp: takeWhile_append1 dropWhile_append1)
  have "dropWhile isDigit xs \<noteq> []" using False by auto
  then show ?thesis unfolding bracketIndex_def a
    by (auto simp: Let_def split: list.splits)
qed

lemma replaceBrackets_append:
  "\<not> isDigit c \<Longrightarrow> c \<noteq> CHR '']'' \<Longrightarrow>
     replaceBrackets (p @ c # t) = replaceBrackets p @ replaceBrackets (c # t)"
proof (induction p rule: replaceBrackets.induct)
  case 1
  then show ?case by simp
next
  case (2 x xs)
  show ?case
  proof (cases "x = CHR ''[''")
    case False
    then show ?thesis using 2 by simp
  next
    case True
    show ?thesis
    proof (cases "bracketIndex xs")
      case None
      then have "bracketIndex (xs @ c # t) = None"
        using bracketIndex_append[OF "2.prems"] by simp
      then show ?thesis using True None 2 by simp
    next
      case (Some a)
      obtain ds rest where a: "a = (ds, rest)" by (cases a)
      have b: "bracketIndex (xs @ c # t) = Some (ds, rest @ c # t)"
        using bracketIndex_append[OF "2.prems", of xs t] Some a by simp
      have "replaceBrackets (rest @ c # t) = replaceBrackets rest @ replaceBrackets (c # t)"
        using "2.IH"(2)[OF True Some a[symmetric]] "2.prems" by simp
      then show ?thesis using True Some a b by simp
    qed
  qed
qed

lemma bracketIndex_digits:
  assumes "allDigits ds"
  shows "bracketIndex (ds @ CHR '']'' # q) = Some (ds, q)"
proof -
  have d: "\<forall>x\<in>set ds. isDigit x" "ds \<noteq> []"
    using assms by (auto simp: allDigits_def list_all_iff)
  have n: "\<not> isDigit (CHR '']'')" by (simp add: isDigit_def)
  have a: "takeWhile isDigit (ds @ CHR '']'' # q) = ds"
    "dropWhile isDigit (ds @ CHR '']'' # q) = CHR '']'' # q"
    using d(1) n by (auto simp: takeWhile_append2 dropWhile_append2)
  show ?thesis using d(2) unfolding bracketIndex_def a by (simp add: Let_def)
qed

lemma replaceBrackets_index:
  "allDigits ds \<Longrightarrow>
     replaceBrackets (p @ CHR ''['' # ds @ CHR '']'' # q) = replaceBrackets p @ CHR ''.'' # ds @ replaceBrackets q"
  using replaceBrackets_append[of "CHR ''[''" p "ds @ CHR '']'' # q"]
  by (simp add: isDigit_def bracketIndex_digits)

lemma replaceBrackets_dot:
  "replaceBrackets (p @ CHR ''.'' # q) = replaceBrackets p @ CHR ''.'' # replaceBrackets q"
  using replaceBrackets_append[of "CHR ''.''" p q] by (simp add: isDigit_def)

lemma replaceBrackets_plain: "CHR ''['' \<notin> set k \<Longrightarrow> replaceBrackets k = k"
  by (induction k) auto

lemma split_nonempty: "split c xs \<noteq> []"
  by (induction xs) (auto split: list.splits)

lemma split_append: "split c (a @ c # b) = split c a @ split c b"
proof (induction a)
  case Nil
  then show ?case by simp
next
  case (Cons x a)
  then show ?case using split_nonempty[of c a] by (auto split: list.splits)
qed

lemma split_plain: "c \<notin> set k \<Longrightarrow> split c k = [k]"
  by (induction k) auto

lemma split_no_sep: "s \<in> set (split c xs) \<Longrightarrow> c \<notin> set s"
proof (induction xs arbitrary: s)
  case Nil
  then show ?case by simp
next
  case (Cons x xs)
  then show ?case by (auto split: if_splits list.splits)
qed

lemma pathParts_no_empty: "[] \<notin> set (pathParts path)"
  by (simp add: pathParts_def)

lemma pathParts_no_dot: "s \<in> set (pathParts path) \<Longrightarrow> CHR ''.'' \<notin> set s"
  unfolding pathParts_def using split_no_sep by fastforce

lemma pathParts_dot: "pathParts (p @ CHR ''.'' # q) = pathParts p @ pathParts q"
  by (simp add: pathParts_def replaceBrackets_dot split_append)

lemma pathParts_Nil: "pathParts [] = []"
  by (simp add: pathParts_def)

lemma pathParts_leading: "pathParts (CHR ''.'' # q) = pathParts q"
  using pathParts_dot[of "[]" q] by (simp add: pathParts_Nil)

lemma pathParts_trailing: "pathParts (p @ ''.'') = pathParts p"
  using pathParts_dot[of p "[]"] by (simp add: pathParts_Nil)

lemma pathParts_plain:
  "k \<noteq> [] \<Longrightarrow> CHR ''.'' \<notin> set k \<Longrightarrow> CHR ''['' \<notin> set k \<Longrightarrow> pathParts k = [k]"
  by (simp add: pathParts_def replaceBrackets_plain split_plain)

lemma allDigits_plain:
  assumes "allDigits ds"
  shows "ds \<noteq> [] \<and> CHR ''.'' \<notin> set ds \<and> CHR ''['' \<notin> set ds"
proof -
  have n: "\<not> isDigit (CHR ''.'')" "\<not> isDigit (CHR ''['')" by (simp_all add: isDigit_def)
  have "\<forall>x\<in>set ds. isDigit x" "ds \<noteq> []"
    using assms by (simp_all add: allDigits_def list_all_iff)
  then show ?thesis using n by blast
qed

lemma pathParts_index:
  assumes "allDigits ds"
  shows "pathParts (p @ CHR ''['' # ds @ '']'') = pathParts p @ [ds]"
proof -
  have "replaceBrackets (p @ CHR ''['' # ds @ '']'') = replaceBrackets p @ CHR ''.'' # ds"
    using replaceBrackets_index[OF assms, of p "[]"] by simp
  then show ?thesis
    using allDigits_plain[OF assms] by (simp add: pathParts_def split_append split_plain)
qed

lemma pathParts_key:
  assumes "k \<noteq> []" "CHR ''.'' \<notin> set k" "CHR ''['' \<notin> set k"
  shows "pathParts (p @ CHR ''.'' # k) = pathParts p @ [k]"
  using assms by (simp add: pathParts_dot pathParts_plain)

subsection \<open>Writing along a path\<close>


lemma map_of_assign_other: "k' \<noteq> k \<Longrightarrow> map_of (assign kvs k v) k' = map_of kvs k'"
  by (induction kvs) auto


lemma getProp_child: "getProp c k = Inr x \<Longrightarrow> child c k = x"
  by (cases c) (auto split: if_splits)

lemma getProp_takesKey: "(\<exists>x. getProp c k = Inr x) = takesKey c k"
  by (cases c) auto

lemma setProp_takesKey: "(\<exists>r. setProp c k v = Inr r) = takesKey c k"
  by (cases c) auto


lemma isNextArray_eq: "(if nextPart = [] then False else allDigits nextPart) = allDigits nextPart"
  by (simp add: allDigits_def)


lemma setParts_walkable:
  "[] \<notin> set ps \<Longrightarrow> (\<exists>r. setParts c ps v = Inr r) = walkable c ps"
proof (induction c ps v rule: setParts.induct)
  case (1 current v)
  then show ?case by simp
next
  case (2 current lastPart v)
  then show ?case by (simp add: setProp_takesKey)
next
  case (3 current part nextPart rest v)
  show ?case
  proof (cases "getProp current part")
    case (Inl e)
    then have "\<not> takesKey current part" using getProp_takesKey[of current part] by auto
    with Inl show ?thesis by simp
  next
    case (Inr ch)
    then have tk: "takesKey current part" using getProp_takesKey[of current part] by auto
    have ch: "child current part = ch" using Inr by (rule getProp_child)
    define ch' where "ch' = (if isNullish ch then (if allDigits nextPart then JArr [] else JObj []) else ch)"
    have ne: "nextPart \<noteq> []" using "3.prems" by auto
    have ih: "(\<exists>r. setParts ch' (nextPart # rest) v = Inr r) = walkable ch' (nextPart # rest)"
      using "3.prems" "3.IH"[OF Inr refl refl] unfolding ch'_def isNextArray_eq by simp
    have w: "walkable current (part # nextPart # rest) = walkable ch' (nextPart # rest)"
      using tk ch unfolding ch'_def by simp
    have s: "setParts current (part # nextPart # rest) v =
        (case setParts ch' (nextPart # rest) v of Inl e \<Rightarrow> Inl e | Inr new \<Rightarrow> setProp current part new)"
      using Inr unfolding ch'_def by (simp add: Let_def isNextArray_eq)
    show ?thesis
    proof (cases "setParts ch' (nextPart # rest) v")
      case (Inl e)
      then show ?thesis using ih w s by simp
    next
      case (Inr new)
      then show ?thesis using ih w s setProp_takesKey[of current part new] tk by simp
    qed
  qed
qed








text \<open>A write returns normally exactly on the walks that meet only containers.\<close>

lemma setValueByPath_fails:
  "\<not> walkable obj (pathParts path) \<Longrightarrow> \<exists>e. setValueByPath obj path v = Inl e"
proof -
  assume a: "\<not> walkable obj (pathParts path)"
  have "\<not> (\<exists>r. setParts obj (pathParts path) v = Inr r)"
    using setParts_walkable[OF pathParts_no_empty, of obj path v] a by simp
  then show ?thesis unfolding setValueByPath_def by (cases "setParts obj (pathParts path) v") auto
qed





section \<open>Properties of the data collector\<close>

lemmas collect_eval =
  collectFormData_def isBindable_def hasAttribute_def dataPath_def dataType_def
  isCheckbox_def controlValue_def num_def






section \<open>Properties of getData\<close>





section \<open>Properties of the renderer\<close>

lemmas render_eval =
  rangeInput_def numberInput_def renderNumberField_def renderStringField_def renderBooleanField_def
  renderTextField_def labelEl_def legendEl_def requiredMark_def descriptionEl_def optAttr_def
  boolAttr_def numStr_def num_def coalesce_def orUndef_def hasRange_def getLabel_def humanize_def
  trim_def isUpper_def toUpper_def isSpace_def getUnionVariants_def

lemmas dec_eval = dec_js_def decNumber_def decString_def


subsection \<open>Numbers\<close>



lemma natToString_small: "n < 10 \<Longrightarrow> natToString n = [''0123456789'' ! n]"
  by simp





subsection \<open>Const\<close>


text \<open>
  The const branch of the revision \<^verbatim>\<open>blueprint.ts\<close> does put the constant into the collected
  data.
\<close>

lemma renderConstField_blueprint_collects:
  "collectFormData dec_js (El ''form'' [] [] False
      [renderConstField_blueprint dec_js ''Type'' (tag_s ''product'') (JStr ''product'') ''type'' False])
   = Inr (JObj [(''type'', JStr ''product'')])"
  by (simp add: renderConstField_blueprint_def tag_s_def leaf_def no_meta_def render_eval
      collect_eval path_eval)


subsection \<open>The add control\<close>

lemma map_of_assignAttr_other: "b \<noteq> a \<Longrightarrow> map_of (assignAttr as a s) b = map_of as b"
  by (induction as) auto

lemma map_of_assignAttr_same: "map_of (assignAttr as a s) a = Some s"
  by (induction as) auto

lemma class_reindexItem: "getAttribute (reindexItem i k) ''class'' = getAttribute k ''class''"
proof (cases k)
  case (Txt x)
  then show ?thesis by simp
next
  case (El t as v c ks)
  have "''class'' \<noteq> ''data-index''" by simp
  then show ?thesis using El map_of_assignAttr_other[of "''class''" "''data-index''"] by simp
qed

lemma isElement_reindexItem: "isElement (reindexItem i k) = isElement k"
  by (cases k) simp_all

lemma isItem_reindexItem: "isItem (reindexItem i k) = isItem k"
  unfolding isItem_def hasClass_def class_reindexItem isElement_reindexItem ..

lemma filter_isItem_reindexKids: "length (filter isItem (reindexKids i ks)) = length (filter isItem ks)"
  by (induction ks arbitrary: i) (auto simp: isItem_reindexItem)

lemma itemCount_reindex: "itemCount (reindexArrayItems c) = itemCount c"
  by (cases c) (simp_all add: itemCount_def filter_isItem_reindexKids)

lemma isItem_arrayItemEl: "isItem (arrayItemEl index vi content)"
  by (simp add: isItem_def hasClass_def arrayItemEl_def)

lemma itemCount_appendChild:
  "isElement c \<Longrightarrow> isItem n \<Longrightarrow> itemCount (appendChild c n) = Suc (itemCount c)"
  by (cases c) (simp_all add: itemCount_def)

lemma renderArrayItem_shape:
  "renderArrayItem j s v path index vi = Inr n \<Longrightarrow> \<exists>content. n = arrayItemEl index vi content"
  by (subst (asm) renderArrayItem.simps) (auto split: sum.splits)

lemma reindexKids_append:
  "isItem n \<Longrightarrow> reindexKids i (ks @ [n]) = reindexKids i ks @ [reindexItem (i + length (filter isItem ks)) n]"
  by (induction ks arbitrary: i) auto

text \<open>A schema rendered by one control: no union, and neither an object nor an array.\<close>

lemma renderField_leaf:
  assumes "getUnionVariants s = None" "schemaType s \<noteq> Some ''object''" "schemaType s \<noteq> Some ''array''"
  shows "\<exists>n. renderField j key s v path required = Inr n"
  using assms by (subst renderField.simps) (auto split: option.splits)

lemma renderArrayItem_leaf:
  assumes "getUnionVariants s = None" "schemaType s \<noteq> Some ''object''" "schemaType s \<noteq> Some ''array''"
  shows "\<exists>n. renderArrayItem j s v path index vi = Inr n"
proof -
  obtain n where "renderField j (case vi of Some x \<Rightarrow> getVariantLabel j s x
        | None \<Rightarrow> ''Item '' @ natToString (index + 1)) s v path False = Inr n"
    using renderField_leaf[OF assms] by blast
  then show ?thesis by (subst renderArrayItem.simps) simp
qed

text \<open>
  C6 as stated (below \<^verbatim>\<open>maxItems\<close> the add control appends a new item) fails for an item
  schema whose default cannot be rendered: with items declared as an array with the
  default \<^verbatim>\<open>'x'\<close> the listener raises, and nothing is appended.
\<close>

theorem addButton_onClick_raises:
  "addButton_onClick dec_js odd_default_s ''m'' 0 (arrayContainer ''m'' []) = Inl TypeError"
proof -
  define it where "it = leaf (no_meta\<lparr>s_type := Some (TName ''array''), s_default := Some (JStr ''x'')\<rparr>)"
  have i: "itemSchemaOf odd_default_s = it" "maxItems (meta odd_default_s) = Some 5"
    by (simp_all add: itemSchemaOf_def odd_default_s_def it_def)
  have u: "getUnionVariants it = None" "schemaType it = Some ''array''" "s_enum (meta it) = None"
    "getDefaultValue it = JStr ''x''"
    by (simp_all add: it_def leaf_def no_meta_def getUnionVariants_def schemaType_def)
  have a: "renderArrayField dec_js k it (JStr ''x'') p r = Inl TypeError" for k p r
    by (subst renderArrayField.simps) simp
  have f: "renderField dec_js k it (JStr ''x'') p r = Inl TypeError" for k p r
    by (subst renderField.simps) (simp add: u a)
  have r: "renderArrayItem dec_js it (JStr ''x'') p 0 None = Inl TypeError" for p
    by (subst renderArrayItem.simps) (simp add: f)
  have c: "itemCount (arrayContainer ''m'' []) = 0"
    by (simp add: itemCount_def arrayContainer_def)
  show ?thesis
    unfolding addButton_onClick_def i c by (simp add: atMaxItems_def i u r)
qed

text \<open>
  C6, amended. With a declared \<^verbatim>\<open>maxItems\<close>, the add control is a no-op at or above it: the
  container is unchanged and no notification is dispatched. Below it the listener
  renders an item from the default of the item schema, or of the selected variant, at
  the path and index given by the item count; when that rendering returns, the item is
  appended, the items are re-indexed, the count has grown by one, the new item is the
  last one with the old count as its index, and the notification is dispatched; when it
  raises, the listener raises. For an item schema that is neither a union nor an object
  nor an array the rendering always returns.
\<close>

theorem addButton_onClick_maxItems:
  assumes "maxItems (meta s) = Some m" and "isElement container"
  shows
    "(of_nat (itemCount container) \<ge> m \<longrightarrow>
        addButton_onClick j s path selected container = Inr (container, False))
     \<and> (of_nat (itemCount container) < m \<longrightarrow>
        (getUnionVariants (itemSchemaOf s) = None \<longrightarrow>
           (\<forall>newItem.
              renderArrayItem j (itemSchemaOf s) (getDefaultValue (itemSchemaOf s))
                (itemPath path (itemCount container)) (itemCount container) None = Inr newItem \<longrightarrow>
              addButton_onClick j s path selected container =
                Inr (reindexArrayItems (appendChild container newItem), True)
              \<and> itemCount (reindexArrayItems (appendChild container newItem)) = Suc (itemCount container)
              \<and> last (kids (reindexArrayItems (appendChild container newItem))) =
                  reindexItem (itemCount container) newItem)
           \<and> (\<forall>e.
              renderArrayItem j (itemSchemaOf s) (getDefaultValue (itemSchemaOf s))
                (itemPath path (itemCount container)) (itemCount container) None = Inl e \<longrightarrow>
              addButton_onClick j s path selected container = Inl e)
           \<and> (schemaType (itemSchemaOf s) \<noteq> Some ''object'' \<and> schemaType (itemSchemaOf s) \<noteq> Some ''array'' \<longrightarrow>
              (\<exists>newItem. addButton_onClick j s path selected container =
                Inr (reindexArrayItems (appendChild container newItem), True))))
        \<and> (\<forall>itemVariants selectedVariant.
             getUnionVariants (itemSchemaOf s) = Some itemVariants
             \<and> nthOpt itemVariants selected = Some selectedVariant \<longrightarrow>
           (\<forall>newItem.
              renderArrayItem j selectedVariant (getDefaultValue selectedVariant)
                (itemPath path (itemCount container)) (itemCount container) (Some selected) = Inr newItem \<longrightarrow>
              addButton_onClick j s path selected container =
                Inr (reindexArrayItems (appendChild container newItem), True)
              \<and> itemCount (reindexArrayItems (appendChild container newItem)) = Suc (itemCount container)
              \<and> last (kids (reindexArrayItems (appendChild container newItem))) =
                  reindexItem (itemCount container) newItem)
           \<and> (\<forall>e.
              renderArrayItem j selectedVariant (getDefaultValue selectedVariant)
                (itemPath path (itemCount container)) (itemCount container) (Some selected) = Inl e \<longrightarrow>
              addButton_onClick j s path selected container = Inl e)))"
proof -
  obtain t as v c ks where cont: "container = El t as v c ks"
    using assms(2) by (cases container) auto
  have cnt: "itemCount (reindexArrayItems (appendChild container n)) = Suc (itemCount container)"
    and lst: "last (kids (reindexArrayItems (appendChild container n))) = reindexItem (itemCount container) n"
    if "renderArrayItem j sch dv p (itemCount container) vi = Inr n" for n sch dv p vi
  proof -
    from renderArrayItem_shape[OF that] have it: "isItem n" by (auto simp: isItem_arrayItemEl)
    show "itemCount (reindexArrayItems (appendChild container n)) = Suc (itemCount container)"
      using itemCount_appendChild[OF assms(2) it] by (simp add: itemCount_reindex)
    show "last (kids (reindexArrayItems (appendChild container n))) = reindexItem (itemCount container) n"
      unfolding cont by (simp add: reindexKids_append[OF it] itemCount_def)
  qed
  have full: "of_nat (itemCount container) \<ge> m \<longrightarrow>
        addButton_onClick j s path selected container = Inr (container, False)"
    using assms(1) by (simp add: addButton_onClick_def atMaxItems_def)
  have below: "of_nat (itemCount container) < m \<Longrightarrow> \<not> atMaxItems s (itemCount container)"
    using assms(1) by (simp add: atMaxItems_def)
  have leafcase: "of_nat (itemCount container) < m \<Longrightarrow> getUnionVariants (itemSchemaOf s) = None \<Longrightarrow>
      schemaType (itemSchemaOf s) \<noteq> Some ''object'' \<and> schemaType (itemSchemaOf s) \<noteq> Some ''array'' \<Longrightarrow>
      \<exists>newItem. addButton_onClick j s path selected container =
                Inr (reindexArrayItems (appendChild container newItem), True)"
  proof -
    assume b: "of_nat (itemCount container) < m" and u: "getUnionVariants (itemSchemaOf s) = None"
      and l: "schemaType (itemSchemaOf s) \<noteq> Some ''object'' \<and> schemaType (itemSchemaOf s) \<noteq> Some ''array''"
    obtain n where "renderArrayItem j (itemSchemaOf s) (getDefaultValue (itemSchemaOf s))
                (itemPath path (itemCount container)) (itemCount container) None = Inr n"
      using renderArrayItem_leaf[OF u] l by blast
    then show ?thesis using below[OF b] u by (auto simp: addButton_onClick_def)
  qed
  show ?thesis
    using full below cnt lst leafcase
    by (auto simp: addButton_onClick_def)
qed


subsection \<open>Re-indexing\<close>

lemma upt_small: "[0..<4] = [0, 1, 2, 3]" "[0..<3] = [0,1,2]" "[0..<2] = [0,1]" "[0..<1] = [0]"
  by (simp_all add: upt_rec)

lemmas item_eval = arrayItemEl_def removeButton_def arrayContainer_def arrayFieldset_def
  addControls_def arrayConstraints_def objectFieldset_def itemPath_def propPath_def
  itemSchemaOf_def requiredFields_def

lemma str_leaf: "getUnionVariants str_s = None" "s_enum (meta str_s) = None" "schemaType str_s = Some ''string''"
  by (simp_all add: str_s_def leaf_def no_meta_def getUnionVariants_def schemaType_def)

lemma renderField_str: "renderField j key str_s v path required = Inr (renderStringField j (getLabel key str_s) str_s v path required)"
  by (subst renderField.simps) (simp add: str_leaf)

lemma renderArrayItem_str:
  "renderArrayItem j str_s v path index None =
     Inr (arrayItemEl index None
            (renderStringField j (getLabel (''Item '' @ natToString (index + 1)) str_s) str_s v path False))"
  by (subst renderArrayItem.simps) (simp add: renderField_str)

lemma list_s_facts: "getUnionVariants list_s = None" "s_enum (meta list_s) = None"
  "schemaType list_s = Some ''array''" "itemSchemaOf list_s = str_s" "maxItems (meta list_s) = Some 4"
  "minItems (meta list_s) = None" "title (meta list_s) = None" "description (meta list_s) = None"
  by (simp_all add: list_s_def no_meta_def getUnionVariants_def schemaType_def itemSchemaOf_def)

lemma label_small: "getLabel ''Item 1'' str_s = ''Item 1''" "getLabel ''Item 2'' str_s = ''Item 2''"
  "getLabel ''Item 3'' str_s = ''Item 3''" "getLabel ''Item 4'' str_s = ''Item 4''"
  "getLabel ''list'' list_s = ''List''"
  by (simp_all add: getLabel_def humanize_def trim_def isUpper_def toUpper_def isSpace_def
      str_s_def leaf_def no_meta_def list_s_def)

lemma render_list4:
  "renderForm dec_js list_form_s (JObj [(''list'', JArr [JStr ''A'', JStr ''B'', JStr ''C'', JStr ''D''])])
     = Inr (Some (list_form (str_box ''list'' [''A'', ''B'', ''C'', ''D''])))"
proof -
  have a: "renderArrayField dec_js ''list'' list_s (JArr [JStr ''A'', JStr ''B'', JStr ''C'', JStr ''D'']) ''list'' False
      = Inr (arrayFieldset dec_js ''List'' list_s ''list'' False
               (map (\<lambda>k. str_item ''list'' k ([''A'', ''B'', ''C'', ''D''] ! k)) [0..<4]))"
    by (subst renderArrayField.simps)
       (simp add: list_s_facts str_leaf renderArrayItem_str upt_small label_small str_item_def
          numeral_2_eq_2 numeral_3_eq_3)
  have f: "renderField dec_js ''list'' list_s (JArr [JStr ''A'', JStr ''B'', JStr ''C'', JStr ''D'']) ''list'' False
      = Inr (arrayFieldset dec_js ''List'' list_s ''list'' False
               (map (\<lambda>k. str_item ''list'' k ([''A'', ''B'', ''C'', ''D''] ! k)) [0..<4]))"
    by (subst renderField.simps) (simp add: list_s_facts a)
  have n4: "numToString dec_js 4 = ''4''" by (simp add: dec_eval)
  show ?thesis
    unfolding renderForm_def list_form_s_def obj_schema_def
    by (simp add: f isNullish_def requiredFields_def no_meta_def list_form_def str_box_def str_array_def
        arrayFieldset_def addControls_def arrayConstraints_def list_s_facts str_leaf
        legendEl_def requiredMark_def descriptionEl_def n4 upt_small numeral_2_eq_2 numeral_3_eq_3)
qed

lemmas dom_eval = list_form_def str_box_def str_array_def str_item_def item_eval render_eval
  legendEl_def str_s_def leaf_def no_meta_def

lemmas reindex_eval = removeButton_onClick_def isItem_def hasClass_def rewritePath_def
  hasAttribute_def dataPath_def bracketIndex_def isDigit_def

text \<open>
  What holds of C3: for an array that lies in no other array the paths are rewritten to
  the new indices. Removing index 1 of \<^verbatim>\<open>['A', 'B', 'C', 'D']\<close> collects \<^verbatim>\<open>['A', 'C', 'D']\<close>,
  and an edit of the new index 1 changes that element only.
\<close>

lemma remove_B:
  "collectFormData dec_js
     (updateAt [0, 2] (\<lambda>c. fst (removeButton_onClick 1 c)) (list_form (str_box ''list'' [''A'', ''B'', ''C'', ''D''])))
     = Inr (JObj [(''list'', JArr [JStr ''A'', JStr ''C'', JStr ''D''])])"
  by (simp add: dom_eval reindex_eval collect_eval path_eval upt_small numeral_2_eq_2 numeral_3_eq_3 Let_def)

lemma edit_C:
  "collectFormData dec_js
     (updateAt [0, 2, 1, 1, 2] (setVal ''X'')
       (updateAt [0, 2] (\<lambda>c. fst (removeButton_onClick 1 c)) (list_form (str_box ''list'' [''A'', ''B'', ''C'', ''D'']))))
     = Inr (JObj [(''list'', JArr [JStr ''A'', JStr ''X'', JStr ''D''])])"
  by (simp add: dom_eval reindex_eval collect_eval path_eval upt_small numeral_2_eq_2 numeral_3_eq_3 Let_def)

lemma row_s_facts: "getUnionVariants row_s = None" "s_enum (meta row_s) = None"
  "schemaType row_s = Some ''array''" "itemSchemaOf row_s = str_s" "maxItems (meta row_s) = None"
  "minItems (meta row_s) = None" "title (meta row_s) = None" "description (meta row_s) = None"
  by (simp_all add: row_s_def no_meta_def getUnionVariants_def schemaType_def itemSchemaOf_def)

lemma rows_s_facts: "getUnionVariants rows_s = None" "s_enum (meta rows_s) = None"
  "schemaType rows_s = Some ''array''" "itemSchemaOf rows_s = row_s" "maxItems (meta rows_s) = None"
  "minItems (meta rows_s) = None" "title (meta rows_s) = None" "description (meta rows_s) = None"
  by (simp_all add: rows_s_def no_meta_def getUnionVariants_def schemaType_def itemSchemaOf_def)

lemma label_rows: "getLabel ''Item 1'' row_s = ''Item 1''" "getLabel ''Item 2'' row_s = ''Item 2''"
  "getLabel ''m'' rows_s = ''M''"
  by (simp_all add: getLabel_def humanize_def trim_def isUpper_def toUpper_def isSpace_def
      row_s_facts rows_s_facts)

lemma render_row:
  "renderField dec_js key row_s (JArr [JStr x, JStr y]) path False =
     Inr (str_array (getLabel key row_s) path
            (arrayContainer path [str_item path 0 x, str_item path 1 y]) (Txt []))"
proof -
  have a: "renderArrayField dec_js key row_s (JArr [JStr x, JStr y]) path False =
     Inr (str_array (getLabel key row_s) path
            (arrayContainer path [str_item path 0 x, str_item path 1 y]) (Txt []))"
    by (subst renderArrayField.simps)
       (simp add: row_s_facts str_leaf renderArrayItem_str upt_small label_small str_item_def
          str_array_def arrayFieldset_def addControls_def arrayConstraints_def descriptionEl_def)
  show ?thesis by (subst renderField.simps) (simp add: row_s_facts a)
qed

lemma render_matrix: "renderForm dec_js matrix_s matrix_data = Inr (Some matrix_form)"
proof -
  have i: "renderArrayItem dec_js row_s (JArr [JStr x, JStr y]) path k None =
     Inr (arrayItemEl k None (str_array (getLabel (''Item '' @ natToString (k + 1)) row_s) path
            (arrayContainer path [str_item path 0 x, str_item path 1 y]) (Txt [])))" for x y path k
    by (subst renderArrayItem.simps) (simp add: render_row)
  have a: "renderArrayField dec_js ''m'' rows_s
       (JArr [JArr [JStr ''a'', JStr ''b''], JArr [JStr ''c'', JStr ''d'']]) ''m'' False =
     Inr (str_array ''M'' ''m''
          (arrayContainer ''m''
             [arrayItemEl 0 None (str_array ''Item 1'' ''m[0]'' (str_box ''m[0]'' [''a'', ''b'']) (Txt [])),
              arrayItemEl 1 None (str_array ''Item 2'' ''m[1]'' (str_box ''m[1]'' [''c'', ''d'']) (Txt []))])
          (Txt []))"
    by (subst renderArrayField.simps)
       (simp add: rows_s_facts row_s_facts i upt_small label_rows str_box_def
          str_array_def arrayFieldset_def addControls_def arrayConstraints_def descriptionEl_def
          itemPath_def)
  have f: "renderField dec_js ''m'' rows_s
       (JArr [JArr [JStr ''a'', JStr ''b''], JArr [JStr ''c'', JStr ''d'']]) ''m'' False =
     Inr (str_array ''M'' ''m''
          (arrayContainer ''m''
             [arrayItemEl 0 None (str_array ''Item 1'' ''m[0]'' (str_box ''m[0]'' [''a'', ''b'']) (Txt [])),
              arrayItemEl 1 None (str_array ''Item 2'' ''m[1]'' (str_box ''m[1]'' [''c'', ''d'']) (Txt []))])
          (Txt []))"
    by (subst renderField.simps) (simp add: rows_s_facts a)
  show ?thesis
    unfolding renderForm_def matrix_s_def obj_schema_def matrix_data_def
    by (simp add: f isNullish_def requiredFields_def no_meta_def matrix_form_def)
qed

lemmas matrix_eval = matrix_form_def str_array_def str_box_def str_item_def item_eval render_eval
  legendEl_def str_s_def leaf_def no_meta_def

lemma collect_matrix: "collectFormData dec_js matrix_form = Inr matrix_data"
  by (simp add: matrix_eval matrix_data_def collect_eval path_eval upt_small)

text \<open>
  C3 (after a removal every descendant path has the index segment of its array rewritten
  to the new index of its item, also in paths with more than one index segment):
  \<^verbatim>\<open>reindexArrayItems\<close> replaces the first index segment of a path, whichever array it
  belongs to. In the form of \<open>matrix_s\<close> with \<^verbatim>\<open>{ m: [['a', 'b'], ['c', 'd']] }\<close>, removing
  the item \<^verbatim>\<open>m[1][0]\<close> turns the path \<^verbatim>\<open>m[1][1]\<close> of the surviving item into \<^verbatim>\<open>m[0][1]\<close>
  instead of \<^verbatim>\<open>m[1][0]\<close>, and the form collects \<^verbatim>\<open>{ m: [['a', 'd']] }\<close> instead of
  \<^verbatim>\<open>{ m: [['a', 'b'], ['d']] }\<close>.
\<close>

theorem reindex_nested_rewrites_outer_index:
  "collectFormData dec_js
     (updateAt [0, 2, 1, 1, 2] (\<lambda>c. fst (removeButton_onClick 0 c)) matrix_form)
   = Inr (JObj [(''m'', JArr [JArr [JStr ''a'', JStr ''d'']])])"
  by (simp add: matrix_eval reindex_eval collect_eval path_eval upt_small Let_def)


lemma data_index_reindexItem:
  "isElement k \<Longrightarrow> getAttribute (reindexItem i k) ''data-index'' = Some (natToString i)"
  by (cases k) (simp_all add: map_of_assignAttr_same)

lemma reindexKids_indices:
  "map (\<lambda>n. getAttribute n ''data-index'') (filter isItem (reindexKids i ks))
     = map (\<lambda>k. Some (natToString k)) [i..<i + length (filter isItem ks)]"
proof (induction ks arbitrary: i)
  case Nil
  then show ?case by simp
next
  case (Cons k ks)
  show ?case
  proof (cases "isItem k")
    case True
    then have e: "isElement k" by (simp add: isItem_def)
    have "[i..<i + Suc (length (filter isItem ks))] = i # [Suc i..<Suc i + length (filter isItem ks)]"
      by (simp add: upt_rec)
    then show ?thesis
      using True Cons.IH[of "Suc i"] data_index_reindexItem[OF e] isItem_reindexItem[of i k] by simp
  next
    case False
    then show ?thesis using Cons.IH[of i] by simp
  qed
qed

text \<open>After a re-indexing the items carry the indices 0, 1, 2, ... in document order.\<close>

lemma reindexArrayItems_contiguous:
  "isElement c \<Longrightarrow>
   map (\<lambda>n. getAttribute n ''data-index'') (filter isItem (kids (reindexArrayItems c)))
     = map (\<lambda>k. Some (natToString k)) [0..<itemCount c]"
  using reindexKids_indices[of 0] by (cases c) (simp_all add: itemCount_def)


subsection \<open>The add control at and below the maximum\<close>

theorem addButton_onClick_maxItems_witness:
  "maxItems (meta list_s) = Some 4
   \<and> itemCount (str_box ''list'' [''A'', ''B'', ''C'', ''D'']) = 4
   \<and> addButton_onClick dec_js list_s ''list'' 0 (str_box ''list'' [''A'', ''B'', ''C'', ''D''])
       = Inr (str_box ''list'' [''A'', ''B'', ''C'', ''D''], False)
   \<and> itemCount (str_box ''list'' [''A'']) = 1
   \<and> addButton_onClick dec_js list_s ''list'' 0 (str_box ''list'' [''A''])
       = Inr (str_box ''list'' [''A'', []], True)"
proof -
  have m: "maxItems (meta list_s) = Some 4" by (rule list_s_facts)
  have e4: "isElement (str_box ''list'' [''A'', ''B'', ''C'', ''D''])"
    and e1: "isElement (str_box ''list'' [''A''])"
    by (simp_all add: str_box_def arrayContainer_def)
  have c4: "itemCount (str_box ''list'' [''A'', ''B'', ''C'', ''D'']) = 4"
    by (simp add: str_box_def arrayContainer_def itemCount_def str_item_def isItem_arrayItemEl upt_small)
  have c1: "itemCount (str_box ''list'' [''A'']) = 1"
    by (simp add: str_box_def arrayContainer_def itemCount_def str_item_def isItem_arrayItemEl upt_small)
  have full: "addButton_onClick dec_js list_s ''list'' 0 (str_box ''list'' [''A'', ''B'', ''C'', ''D''])
       = Inr (str_box ''list'' [''A'', ''B'', ''C'', ''D''], False)"
    using addButton_onClick_maxItems[OF m e4, of dec_js "''list''" 0] c4 by simp
  have r: "renderArrayItem dec_js (itemSchemaOf list_s) (getDefaultValue (itemSchemaOf list_s))
             (itemPath ''list'' (itemCount (str_box ''list'' [''A''])))
             (itemCount (str_box ''list'' [''A''])) None
           = Inr (str_item ''list'' 1 [])"
  proof -
    have d: "getDefaultValue str_s = JStr []"
      by (simp add: str_s_def leaf_def no_meta_def schemaType_def)
    show ?thesis unfolding c1 list_s_facts d
      by (simp add: renderArrayItem_str str_item_def label_small)
  qed
  have u: "getUnionVariants (itemSchemaOf list_s) = None"
    unfolding list_s_facts by (rule str_leaf)
  have "addButton_onClick dec_js list_s ''list'' 0 (str_box ''list'' [''A''])
       = Inr (reindexArrayItems (appendChild (str_box ''list'' [''A'']) (str_item ''list'' 1 [])), True)"
    using addButton_onClick_maxItems[OF m e1, of dec_js "''list''" 0] c1 u r by simp
  moreover have "reindexArrayItems (appendChild (str_box ''list'' [''A'']) (str_item ''list'' 1 []))
      = str_box ''list'' [''A'', []]"
    by (simp add: dom_eval reindex_eval upt_small Let_def)
  ultimately show ?thesis using m c4 c1 full by simp
qed


end
